theory Spec2Isabelle
  imports Complex_Main "HOL-Library.Monad_Syntax"
begin

section \<open>Errors and helper functions of \<open>models.py\<close>\<close>

text \<open>
  The Python exceptions that the modelled code can raise. A function that can raise
  returns \<open>py_error + 'a\<close>, with \<open>Inl\<close> for the exception.
\<close>

datatype py_error =
    ZeroDivisionError
  | IndexError
  | ValueError
  | AttributeError
  | AssertionError
  | NameError
  | FileNotFoundError
  | UnpicklingError
  | RuntimeError

text \<open>
  \<^verbatim>\<open>def divisible_by(numer, denom): return (numer % denom) == 0\<close>

  Python's \<open>%\<close> and \<open>//\<close> on integers are floored, as \<open>mod\<close> and \<open>div\<close> on \<open>int\<close> are;
  a zero divisor raises in Python and is written out here.
\<close>

definition divisible_by :: "int \<Rightarrow> int \<Rightarrow> py_error + bool" where
  "divisible_by numer denom =
     (if denom = 0 then Inl ZeroDivisionError else Inr (numer mod denom = 0))"

text \<open>
  \<^verbatim>\<open>
  def num_to_groups(num, divisor):
      groups = num // divisor
      remainder = num % divisor
      arr = [divisor] * groups
      if remainder > 0:
          arr.append(remainder)
      return arr
  \<close>
  \<open>[divisor] * groups\<close> is the empty list when \<open>groups\<close> is not positive, as
  \<open>replicate (nat groups)\<close> is.
\<close>

definition num_to_groups :: "int \<Rightarrow> int \<Rightarrow> py_error + int list" where
  "num_to_groups num divisor =
     (if divisor = 0 then Inl ZeroDivisionError
      else
        let groups = num div divisor;
            remainder = num mod divisor;
            arr = replicate (nat groups) divisor
        in Inr (if remainder > 0 then arr @ [remainder] else arr))"

section \<open>Tensors\<close>

text \<open>
  Tensor elements. The source computes in 32-bit floating point; the model computes in the
  reals, extended with the three special values that floating-point division and square
  root produce instead of raising: an element is a real number, one of the infinities or
  not-a-number. Rounding, overflow and the sign of zero are not modelled. The special
  values follow IEEE 754: \<open>0 / 0\<close> and \<open>\<infinity> - \<infinity>\<close> are not-a-number, a nonzero number
  divided by zero is an infinity, and not-a-number propagates through every operation.
\<close>

datatype fval = Fin real | PInf | NInf | NaN

definition inf_of_sign :: "real \<Rightarrow> fval" where
  "inf_of_sign s = (if s = 0 then NaN else if 0 < s then PInf else NInf)"

fun fneg :: "fval \<Rightarrow> fval" where
  "fneg (Fin x) = Fin (- x)"
| "fneg PInf = NInf"
| "fneg NInf = PInf"
| "fneg NaN = NaN"

fun fadd :: "fval \<Rightarrow> fval \<Rightarrow> fval" where
  "fadd (Fin x) (Fin y) = Fin (x + y)"
| "fadd NaN _ = NaN"
| "fadd _ NaN = NaN"
| "fadd PInf NInf = NaN"
| "fadd NInf PInf = NaN"
| "fadd PInf _ = PInf"
| "fadd _ PInf = PInf"
| "fadd NInf _ = NInf"
| "fadd _ NInf = NInf"

definition fsub :: "fval \<Rightarrow> fval \<Rightarrow> fval" where
  "fsub a b = fadd a (fneg b)"

fun fmul :: "fval \<Rightarrow> fval \<Rightarrow> fval" where
  "fmul (Fin x) (Fin y) = Fin (x * y)"
| "fmul NaN _ = NaN"
| "fmul _ NaN = NaN"
| "fmul (Fin x) PInf = inf_of_sign x"
| "fmul (Fin x) NInf = inf_of_sign (- x)"
| "fmul PInf (Fin y) = inf_of_sign y"
| "fmul NInf (Fin y) = inf_of_sign (- y)"
| "fmul PInf PInf = PInf"
| "fmul NInf NInf = PInf"
| "fmul PInf NInf = NInf"
| "fmul NInf PInf = NInf"

fun fdiv :: "fval \<Rightarrow> fval \<Rightarrow> fval" where
  "fdiv (Fin x) (Fin y) = (if y = 0 then inf_of_sign x else Fin (x / y))"
| "fdiv NaN _ = NaN"
| "fdiv _ NaN = NaN"
| "fdiv (Fin x) PInf = Fin 0"
| "fdiv (Fin x) NInf = Fin 0"
| "fdiv PInf (Fin y) = (if 0 \<le> y then PInf else NInf)"
| "fdiv NInf (Fin y) = (if 0 \<le> y then NInf else PInf)"
| "fdiv _ _ = NaN"

fun fsqrt :: "fval \<Rightarrow> fval" where
  "fsqrt (Fin x) = (if x < 0 then NaN else Fin (sqrt x))"
| "fsqrt PInf = PInf"
| "fsqrt NInf = NaN"
| "fsqrt NaN = NaN"

text \<open>\<open>a > b\<close> on tensor scalars: false whenever not-a-number is involved.\<close>

fun fgreater :: "fval \<Rightarrow> fval \<Rightarrow> bool" where
  "fgreater (Fin x) (Fin y) = (y < x)"
| "fgreater NaN _ = False"
| "fgreater _ NaN = False"
| "fgreater PInf PInf = False"
| "fgreater PInf _ = True"
| "fgreater _ PInf = False"
| "fgreater NInf _ = False"
| "fgreater _ NInf = True"

text \<open>
  An image is indexed by channel, row and column; a tensor is a batch of images, indexed
  \<open>[b][c][h][w]\<close> as the source's four-dimensional tensors are. \<open>shape\<close> gives the
  length of every row of every channel of every image. The elementwise operations below
  pair the elements position by position: on two tensors of equal shape they are the
  operations of the source. On tensors of different shapes the source broadcasts a
  dimension of size 1 and raises for any other difference, which the pairing does not
  do; every statement below about the value of such an operation is made for operands
  of equal shape.
\<close>

type_synonym image = "fval list list list"
type_synonym tensor = "image list"

definition flat_image :: "image \<Rightarrow> fval list" where
  "flat_image im = concat (concat im)"

definition flat :: "tensor \<Rightarrow> fval list" where
  "flat x = concat (map flat_image x)"

definition shape :: "tensor \<Rightarrow> nat list list list" where
  "shape x = map (map (map length)) x"

definition tmap :: "(fval \<Rightarrow> fval) \<Rightarrow> tensor \<Rightarrow> tensor" where
  "tmap f x = map (map (map (map f))) x"

definition tzip :: "(fval \<Rightarrow> fval \<Rightarrow> fval) \<Rightarrow> tensor \<Rightarrow> tensor \<Rightarrow> tensor" where
  "tzip f x y = map2 (map2 (map2 (map2 f))) x y"

definition tsub :: "tensor \<Rightarrow> tensor \<Rightarrow> tensor" where
  "tsub x y = tzip fsub x y"

definition tadd :: "tensor \<Rightarrow> tensor \<Rightarrow> tensor" where
  "tadd x y = tzip fadd x y"

definition tscale :: "fval \<Rightarrow> tensor \<Rightarrow> tensor" where
  "tscale a x = tmap (fmul a) x"

definition fsum :: "fval list \<Rightarrow> fval" where
  "fsum xs = foldr fadd xs (Fin 0)"

text \<open>The mean of a list of elements; of no element it is \<open>0 / 0\<close>, not-a-number.\<close>

definition fmean :: "fval list \<Rightarrow> fval" where
  "fmean xs = fdiv (fsum xs) (Fin (real (length xs)))"

text \<open>\<open>torch.mean(x)\<close>: the mean over every element of the tensor.\<close>

definition torch_mean :: "tensor \<Rightarrow> fval" where
  "torch_mean x = fmean (flat x)"

text \<open>
  \<open>torch.std(x)\<close>: the standard deviation over every element of the tensor, with
  Bessel's correction: the sum of the squared deviations from the mean is divided by
  \<open>max 0 (N - 1)\<close>, which is the truncating subtraction of \<open>nat\<close>. For a tensor of one
  element (and for an empty one) this is \<open>0 / 0\<close>, and the result is not-a-number.
\<close>

definition torch_std :: "tensor \<Rightarrow> fval" where
  "torch_std x =
     (let m = torch_mean x;
          sq = map (\<lambda>v. fmul (fsub v m) (fsub v m)) (flat x)
      in fsqrt (fdiv (fsum sq) (Fin (real (length (flat x) - 1)))))"

text \<open>
  \<^verbatim>\<open>def normalize_norm_dist(x): return (x - torch.mean(x)) / torch.std(x)\<close>

  Both scalars are computed once from the whole tensor and applied to every element.
  The division has no guard.
\<close>

definition normalize_norm_dist :: "tensor \<Rightarrow> tensor" where
  "normalize_norm_dist x = tmap (\<lambda>v. fdiv (fsub v (torch_mean x)) (torch_std x)) x"

text \<open>
  \<open>F.mse_loss(a, b)\<close> with the default reduction: the mean over every element of the
  squared difference.
\<close>

definition sq_err :: "fval \<Rightarrow> fval \<Rightarrow> fval" where
  "sq_err a b = fmul (fsub a b) (fsub a b)"

definition mse_loss :: "tensor \<Rightarrow> tensor \<Rightarrow> fval" where
  "mse_loss a b = torch_mean (tzip sq_err a b)"

section \<open>Files of a results folder\<close>

text \<open>
  The decimal text of an integer, as an f-string prints it, and the two kinds of
  milestone the source formats into a file name: the integer \<open>step // save_every\<close> and the
  names \<open>"best"\<close> and \<open>"latest"\<close>.
\<close>

fun str_nat :: "nat \<Rightarrow> string" where
  "str_nat n =
     (if n < 10 then [char_of (48 + n)]
      else str_nat (n div 10) @ [char_of (48 + n mod 10)])"

definition str_int :: "int \<Rightarrow> string" where
  "str_int i = (if i < 0 then ''-'' @ str_nat (nat (- i)) else str_nat (nat i))"

datatype milestone = MNum int | MName string

fun str_milestone :: "milestone \<Rightarrow> string" where
  "str_milestone (MNum i) = str_int i"
| "str_milestone (MName s) = s"

section \<open>\<open>DIPTrainer\<close>: fitting the prior network to one image\<close>

text \<open>
  What the class takes from outside this file: the network the caller passes in (its
  forward pass as a function of its parameters, of its mode and of its input), automatic
  differentiation and the Adam optimizer.
  \<^item> \<open>dip_net p training x\<close> is \<open>model(x)\<close> for the parameters \<open>p\<close>, in training mode or
    in evaluation mode;
  \<^item> \<open>dip_autograd loss p\<close> is what \<open>loss.backward()\<close> stores in \<open>.grad\<close> after
    \<open>zero_grad()\<close>: the gradient at \<open>p\<close> of the scalar \<open>loss\<close>, a function of the
    parameters;
  \<^item> \<open>dip_adam opt p g\<close> is \<open>opt.step()\<close>: the optimizer state and the parameters after
    one step with the gradient \<open>g\<close>.
\<close>

record ('p, 'o) dip_env =
  dip_net :: "'p \<Rightarrow> bool \<Rightarrow> tensor \<Rightarrow> tensor"
  dip_autograd :: "('p \<Rightarrow> fval) \<Rightarrow> 'p \<Rightarrow> fval list"
  dip_adam :: "'o \<Rightarrow> 'p \<Rightarrow> fval list \<Rightarrow> 'o \<times> 'p"

text \<open>
  The files \<open>DIPTrainer\<close> writes into its results folder, by file name: a checkpoint
  \<open>{'step', 'model', 'model_input'}\<close>, an image of the network's output and a noise
  artifact (the first image of the batch).
\<close>

datatype 'p dip_file =
    DipCheckpoint int 'p tensor
  | DipImage tensor
  | DipNoise image

text \<open>
  The fields of a \<open>DIPTrainer\<close> that its methods read and write: \<open>self.model\<close> (its
  parameters and its mode), \<open>self.opt\<close>, the gradient held by the parameters,
  \<open>self.model_input\<close>, \<open>self.train_img\<close>, \<open>self.step\<close>, and the contents of
  \<open>self.result_folder\<close>.
\<close>

record ('p, 'o) dip_trainer =
  dt_model :: 'p
  dt_training :: bool
  dt_opt :: 'o
  dt_grad :: "fval list option"
  dt_model_input :: tensor
  dt_train_img :: tensor
  dt_step :: int
  dt_files :: "string \<rightharpoonup> 'p dip_file"

text \<open>
  \<open>DIPTrainer.__init__\<close>, from the network, the target image already loaded as a tensor,
  the fresh optimizer state, the tensor that \<open>get_noise\<close> draws for \<open>self.model_input\<close>,
  and the contents of the results folder. A module starts in training mode.
\<close>

definition DIPTrainer_init ::
  "'p \<Rightarrow> tensor \<Rightarrow> 'o \<Rightarrow> tensor \<Rightarrow> (string \<rightharpoonup> 'p dip_file) \<Rightarrow> ('p, 'o) dip_trainer" where
  "DIPTrainer_init model train_img opt0 noise_draw folder =
     \<lparr> dt_model = model, dt_training = True, dt_opt = opt0, dt_grad = None,
       dt_model_input = noise_draw, dt_train_img = train_img, dt_step = 0,
       dt_files = folder \<rparr>"

text \<open>
  \<^verbatim>\<open>
  def save(self, milestone):
      data = {'step': self.step, 'model': self.model.state_dict(),
              'model_input': self.model_input}
      torch.save(data, os.path.join(self.result_folder, f'dip_model_{milestone}.pth'))
  \<close>
\<close>

definition dip_checkpoint_name :: "milestone \<Rightarrow> string" where
  "dip_checkpoint_name milestone = ''dip_model_'' @ str_milestone milestone @ ''.pth''"

definition dip_save :: "milestone \<Rightarrow> ('p, 'o) dip_trainer \<Rightarrow> ('p, 'o) dip_trainer" where
  "dip_save milestone st =
     st\<lparr>dt_files := (dt_files st)(dip_checkpoint_name milestone \<mapsto>
           DipCheckpoint (dt_step st) (dt_model st) (dt_model_input st))\<rparr>"

text \<open>
  \<^verbatim>\<open>
  def load(self, milestone):
      data = torch.load(os.path.join(self.result_folder, f'dip_model_{milestone}.pth'))
      self.step = data['step']
      self.model.load_state_dict(data['model'])
      self.model_input = data['model_input']
  \<close>
  A missing file raises; a file that is not a checkpoint fails at \<open>torch.load\<close> (an
  image) or at \<open>data['step']\<close> (a noise tensor).
\<close>

definition dip_load ::
  "milestone \<Rightarrow> ('p, 'o) dip_trainer \<Rightarrow> py_error + ('p, 'o) dip_trainer" where
  "dip_load milestone st =
     (case dt_files st (dip_checkpoint_name milestone) of
        None \<Rightarrow> Inl FileNotFoundError
      | Some (DipCheckpoint s m i) \<Rightarrow>
          Inr (st\<lparr>dt_step := s, dt_model := m, dt_model_input := i\<rparr>)
      | Some (DipImage _) \<Rightarrow> Inl UnpicklingError
      | Some (DipNoise _) \<Rightarrow> Inl IndexError)"

text \<open>
  \<^verbatim>\<open>
  def predict(self):
      self.model.eval()
      out = self.model(self.model_input)
      return out
  \<close>
  The call returns the output and leaves the network in evaluation mode.
\<close>

definition predict ::
  "('p, 'o) dip_env \<Rightarrow> ('p, 'o) dip_trainer \<Rightarrow> tensor \<times> ('p, 'o) dip_trainer" where
  "predict env st =
     (let st1 = st\<lparr>dt_training := False\<rparr>;
          out = dip_net env (dt_model st1) (dt_training st1) (dt_model_input st1)
      in (out, st1))"

text \<open>
  \<^verbatim>\<open>
  def generate_noise(self):
      out = self.predict()
      noise = normalize_norm_dist(out - self.train_img)
      return noise
  \<close>
\<close>

definition generate_noise ::
  "('p, 'o) dip_env \<Rightarrow> ('p, 'o) dip_trainer \<Rightarrow> tensor \<times> ('p, 'o) dip_trainer" where
  "generate_noise env st =
     (let (out, st1) = predict env st;
          noise = normalize_norm_dist (tsub out (dt_train_img st1))
      in (noise, st1))"

text \<open>
  \<^verbatim>\<open>
  def save_noise(self, filename):
      noise = self.generate_noise().detach().cpu()[0]
      torch.save(noise, os.path.join(self.result_folder, filename))
  \<close>
\<close>

definition save_noise ::
  "('p, 'o) dip_env \<Rightarrow> string \<Rightarrow> ('p, 'o) dip_trainer \<Rightarrow> py_error + ('p, 'o) dip_trainer" where
  "save_noise env filename st =
     (let (noise, st1) = generate_noise env st
      in case noise of
           [] \<Rightarrow> Inl IndexError
         | n0 # _ \<Rightarrow> Inr (st1\<lparr>dt_files := (dt_files st1)(filename \<mapsto> DipNoise n0)\<rparr>))"








section \<open>\<open>GaussianDiffusionWithDeepImagePrior\<close>\<close>

text \<open>
  The sizes \<open>(b, c, h, w)\<close> of a tensor, read off its first image, first channel and first
  row. (A nested list with an empty batch carries no inner sizes; they read as 0.)
\<close>

definition dims :: "tensor \<Rightarrow> int \<times> int \<times> int \<times> int" where
  "dims x =
     (int (length x),
      (case x of [] \<Rightarrow> 0 | im # _ \<Rightarrow> int (length im)),
      (case x of [] \<Rightarrow> 0 | im # _ \<Rightarrow> (case im of [] \<Rightarrow> 0 | ch # _ \<Rightarrow> int (length ch))),
      (case x of [] \<Rightarrow> 0 | im # _ \<Rightarrow>
         (case im of [] \<Rightarrow> 0 | ch # _ \<Rightarrow> (case ch of [] \<Rightarrow> 0 | row # _ \<Rightarrow> int (length row)))))"

text \<open>
  \<open>a[i]\<close> on a one-dimensional tensor. From \<open>-len(a)\<close> up to \<open>-1\<close> the index is taken
  from the end; outside \<open>-len(a) .. len(a) - 1\<close> the access raises \<open>IndexError\<close>.
\<close>

definition py_index :: "'a list \<Rightarrow> int \<Rightarrow> py_error + 'a" where
  "py_index xs i =
     (if 0 \<le> i \<and> i < int (length xs) then Inr (xs ! nat i)
      else if i < 0 \<and> 0 \<le> int (length xs) + i then Inr (xs ! nat (int (length xs) + i))
      else Inl IndexError)"

text \<open>
  \<open>x.expand(batch, -1, -1, -1)\<close>: a batch of one image is repeated \<open>batch\<close> times; \<open>-1\<close>
  keeps the size; any other size must already be the size asked for.
\<close>

definition expand_batch :: "tensor \<Rightarrow> int \<Rightarrow> py_error + tensor" where
  "expand_batch x batch =
     (if batch = -1 \<or> batch = int (length x) then Inr x
      else if batch < 0 then Inl RuntimeError
      else (case x of [im] \<Rightarrow> Inr (replicate (nat batch) im) | _ \<Rightarrow> Inl RuntimeError))"

text \<open>
  What the class takes from outside this file. The configuration and the schedules are
  set by the constructor of the base class \<open>GaussianDiffusion\<close>; \<open>q_sample\<close>, \<open>predict_v\<close>,
  \<open>model_predictions\<close>, \<open>p_sample\<close>, \<open>normalize\<close> and \<open>unnormalize\<close> are its methods, which
  this file does not override (\<open>p_sample\<close> takes the random numbers it draws as its last
  argument; \<open>model_predictions\<close> takes \<open>clip_x_start\<close> and \<open>rederive_pred_noise\<close> and
  returns \<open>pred_noise\<close> and \<open>pred_x_start\<close>; \<open>unnormalize\<close> acts on each element);
  \<open>model\<close> is the denoising network and \<open>dip_model\<close> the prior network, each as the
  function its current parameters compute. \<open>dip_model\<close> is the module the constructor
  stores in \<open>self.dip_model\<close>. \<open>linspace_int start end steps\<close> is
  \<open>torch.linspace(start, end, steps = steps).int().tolist()\<close>, which the library computes
  in 32-bit floating point before it truncates, and which raises for a negative number
  of steps.
\<close>

record 'r diffusion =
  num_timesteps :: int
  sampling_timesteps :: int
  ddim_sampling_eta :: fval
  objective :: string
  self_condition :: bool
  offset_noise_strength :: real
  loss_weight :: "fval list"
  alphas_cumprod :: "fval list"
  image_size :: "int \<times> int"
  channels :: int
  is_ddim_sampling :: bool
  dip_input_depth :: int
  dip_model :: "tensor \<Rightarrow> tensor"
  model :: "tensor \<Rightarrow> int list \<Rightarrow> tensor option \<Rightarrow> tensor"
  q_sample :: "tensor \<Rightarrow> int list \<Rightarrow> tensor \<Rightarrow> tensor"
  predict_v :: "tensor \<Rightarrow> int list \<Rightarrow> tensor \<Rightarrow> tensor"
  model_predictions :: "tensor \<Rightarrow> int list \<Rightarrow> tensor option \<Rightarrow> bool \<Rightarrow> bool \<Rightarrow> tensor \<times> tensor"
  p_sample :: "tensor \<Rightarrow> int \<Rightarrow> tensor option \<Rightarrow> 'r \<Rightarrow> tensor \<times> tensor"
  normalize :: "tensor \<Rightarrow> tensor"
  unnormalize :: "fval \<Rightarrow> fval"
  linspace_int :: "int \<Rightarrow> int \<Rightarrow> int \<Rightarrow> py_error + int list"

text \<open>
  The random numbers one call draws, given to the model as an argument:
  \<^item> \<open>dr_get_noise depth (h, w)\<close>: the tensor \<open>get_noise(depth, 'noise', (h, w))\<close> returns
    at this call, of sizes \<open>(1, depth, h, w)\<close>;
  \<^item> \<open>dr_randn k\<close>: the tensor the \<open>k\<close>-th call of \<open>torch.randn_like\<close> returns;
  \<^item> \<open>dr_step t\<close>: what \<open>p_sample\<close> draws at timestep \<open>t\<close>;
  \<^item> \<open>dr_offset\<close>: \<open>torch.randn(x_start.shape[:2])\<close>, one number for each image and channel;
  \<^item> \<open>dr_random\<close>: the value of \<open>random()\<close>;
  \<^item> \<open>dr_randint\<close>: the timesteps \<open>torch.randint(0, num_timesteps, (b,))\<close> returns.
\<close>

record 'r draws =
  dr_get_noise :: "int \<Rightarrow> int \<times> int \<Rightarrow> tensor"
  dr_randn :: "nat \<Rightarrow> tensor"
  dr_step :: "int \<Rightarrow> 'r"
  dr_offset :: "fval list list"
  dr_random :: real
  dr_randint :: "int list"

text \<open>
  The first lines that \<open>p_sample_loop\<close> and \<open>ddim_sample\<close> share: the image the reverse
  process starts from.
  \<^verbatim>\<open>
  dip_input = get_noise(self.dip_input_depth, 'noise', shape[-2:]).to(device)
  dip_input = dip_input.expand(batch, -1, -1, -1)
  img = self.dip_model(dip_input)
  img = normalize_norm_dist(img)
  \<close>
\<close>

definition initial_image ::
  "'r diffusion \<Rightarrow> 'r draws \<Rightarrow> int \<times> int \<times> int \<times> int \<Rightarrow> py_error + tensor" where
  "initial_image d dr shp =
     (case shp of (batch, c, h, w) \<Rightarrow>
        let dip_input = dr_get_noise dr (dip_input_depth d) (h, w)
        in case expand_batch dip_input batch of
             Inl e \<Rightarrow> Inl e
           | Inr dip_input \<Rightarrow>
               let img = dip_model d dip_input
               in Inr (normalize_norm_dist img))"

text \<open>
  What a sampling call returns: the last image, or with \<open>return_all_timesteps\<close> the images
  of every step stacked along dimension 1, indexed \<open>[b][step][c][h][w]\<close>.
\<close>

datatype sample_out = Images tensor | AllTimesteps "tensor list"

definition finish_sample :: "'r diffusion \<Rightarrow> bool \<Rightarrow> tensor \<Rightarrow> tensor list \<Rightarrow> sample_out" where
  "finish_sample d return_all_timesteps img imgs =
     (if \<not> return_all_timesteps then Images (tmap (unnormalize d) img)
      else AllTimesteps (map (tmap (unnormalize d)) (transpose imgs)))"

text \<open>
  \<^verbatim>\<open>
  for t in tqdm(reversed(range(0, self.num_timesteps)), ...):
      self_cond = x_start if self.self_condition else None
      img, x_start = self.p_sample(img, t, self_cond)
      imgs.append(img)
  \<close>
\<close>

fun p_sample_steps ::
  "'r diffusion \<Rightarrow> 'r draws \<Rightarrow> int list \<Rightarrow> tensor \<Rightarrow> tensor option \<Rightarrow> tensor list
     \<Rightarrow> tensor \<times> tensor list" where
  "p_sample_steps d dr [] img x_start imgs = (img, imgs)"
| "p_sample_steps d dr (t # ts) img x_start imgs =
     (let self_cond = (if self_condition d then x_start else None);
          (img', x_start') = p_sample d img t self_cond (dr_step dr t)
      in p_sample_steps d dr ts img' (Some x_start') (imgs @ [img']))"

text \<open>
  \<^verbatim>\<open>
  def p_sample_loop(self, shape, return_all_timesteps = False):
      batch, device = shape[0], self.device
      ... the initial image ...
      imgs = [img]
      x_start = None
      for t in ...
      ret = img if not return_all_timesteps else torch.stack(imgs, dim = 1)
      ret = self.unnormalize(ret)
      return ret
  \<close>
\<close>

definition p_sample_loop ::
  "'r diffusion \<Rightarrow> 'r draws \<Rightarrow> int \<times> int \<times> int \<times> int \<Rightarrow> bool \<Rightarrow> py_error + sample_out" where
  "p_sample_loop d dr shp return_all_timesteps =
     (case initial_image d dr shp of
        Inl e \<Rightarrow> Inl e
      | Inr img0 \<Rightarrow>
          let (img, imgs) =
                p_sample_steps d dr (rev (map int [0 ..< nat (num_timesteps d)])) img0 None [img0]
          in Inr (finish_sample d return_all_timesteps img imgs))"

text \<open>
  One pass through the loop of \<open>ddim_sample\<close>; \<open>k\<close> counts the calls of
  \<open>torch.randn_like\<close>.
  \<^verbatim>\<open>
  for time, time_next in tqdm(time_pairs, ...):
      time_cond = torch.full((batch,), time, device = device, dtype = torch.long)
      self_cond = x_start if self.self_condition else None
      pred_noise, x_start, *_ = self.model_predictions(img, time_cond, self_cond,
                                    clip_x_start = True, rederive_pred_noise = True)
      if time_next < 0:
          img = x_start
          imgs.append(img)
          continue
      alpha = self.alphas_cumprod[time]
      alpha_next = self.alphas_cumprod[time_next]
      sigma = eta * ((1 - alpha / alpha_next) * (1 - alpha_next) / (1 - alpha)).sqrt()
      c = (1 - alpha_next - sigma ** 2).sqrt()
      noise = torch.randn_like(img)
      img = x_start * alpha_next.sqrt() + c * pred_noise + sigma * noise
      imgs.append(img)
  \<close>
\<close>

fun ddim_steps ::
  "'r diffusion \<Rightarrow> 'r draws \<Rightarrow> int \<Rightarrow> (int \<times> int) list \<Rightarrow> nat \<Rightarrow> tensor \<Rightarrow> tensor option
     \<Rightarrow> tensor list \<Rightarrow> py_error + tensor \<times> tensor list" where
  "ddim_steps d dr batch [] k img x_start imgs = Inr (img, imgs)"
| "ddim_steps d dr batch ((time, time_next) # ps) k img x_start imgs =
     (if batch < 0 then Inl RuntimeError
      else
        let time_cond = replicate (nat batch) time;
            self_cond = (if self_condition d then x_start else None);
            (pred_noise, x_start') = model_predictions d img time_cond self_cond True True
        in if time_next < 0
           then ddim_steps d dr batch ps k x_start' (Some x_start') (imgs @ [x_start'])
           else
             (case py_index (alphas_cumprod d) time of
                Inl e \<Rightarrow> Inl e
              | Inr alpha \<Rightarrow>
                  (case py_index (alphas_cumprod d) time_next of
                     Inl e \<Rightarrow> Inl e
                   | Inr alpha_next \<Rightarrow>
                       let sigma = fmul (ddim_sampling_eta d)
                                     (fsqrt (fdiv (fmul (fsub (Fin 1) (fdiv alpha alpha_next))
                                                        (fsub (Fin 1) alpha_next))
                                                  (fsub (Fin 1) alpha)));
                           c = fsqrt (fsub (fsub (Fin 1) alpha_next) (fmul sigma sigma));
                           noise = dr_randn dr k;
                           img' = tadd (tadd (tscale (fsqrt alpha_next) x_start')
                                             (tscale c pred_noise))
                                       (tscale sigma noise)
                       in ddim_steps d dr batch ps (Suc k) img' (Some x_start') (imgs @ [img']))))"

text \<open>
  \<^verbatim>\<open>
  def ddim_sample(self, shape, return_all_timesteps = False):
      batch, device, total_timesteps, sampling_timesteps, eta, objective = ...
      times = torch.linspace(-1, total_timesteps - 1, steps = sampling_timesteps + 1)
      times = list(reversed(times.int().tolist()))
      time_pairs = list(zip(times[:-1], times[1:]))
      ... the initial image ...
      imgs = [img]
      x_start = None
      for time, time_next in ...
      ret = img if not return_all_timesteps else torch.stack(imgs, dim = 1)
      ret = self.unnormalize(ret)
      return ret
  \<close>
\<close>

definition ddim_sample ::
  "'r diffusion \<Rightarrow> 'r draws \<Rightarrow> int \<times> int \<times> int \<times> int \<Rightarrow> bool \<Rightarrow> py_error + sample_out" where
  "ddim_sample d dr shp return_all_timesteps =
     (case shp of (batch, c, h, w) \<Rightarrow>
        (case linspace_int d (- 1) (num_timesteps d - 1) (sampling_timesteps d + 1) of
           Inl e \<Rightarrow> Inl e
         | Inr ts \<Rightarrow>
             let times = rev ts;
                 time_pairs = zip (butlast times) (tl times)
             in case initial_image d dr shp of
                  Inl e \<Rightarrow> Inl e
                | Inr img0 \<Rightarrow>
                    (case ddim_steps d dr batch time_pairs 0 img0 None [img0] of
                       Inl e \<Rightarrow> Inl e
                     | Inr (img, imgs) \<Rightarrow> Inr (finish_sample d return_all_timesteps img imgs))))"

text \<open>
  \<^verbatim>\<open>
  def sample(self, batch_size = 16, return_all_timesteps = False):
      (h, w), channels = self.image_size, self.channels
      sample_fn = self.p_sample_loop if not self.is_ddim_sampling else self.ddim_sample
      return sample_fn((batch_size, channels, h, w), return_all_timesteps = return_all_timesteps)
  \<close>
\<close>

definition sample ::
  "'r diffusion \<Rightarrow> 'r draws \<Rightarrow> int \<Rightarrow> bool \<Rightarrow> py_error + sample_out" where
  "sample d dr batch_size return_all_timesteps =
     (case image_size d of (h, w) \<Rightarrow>
        (if \<not> is_ddim_sampling d
         then p_sample_loop d dr (batch_size, channels d, h, w) return_all_timesteps
         else ddim_sample d dr (batch_size, channels d, h, w) return_all_timesteps))"

text \<open>
  \<^verbatim>\<open>
  def extract(a, t, x_shape):
      b, *_ = t.shape
      out = a.gather(-1, t)
      return out.reshape(b, *((1,) * (len(x_shape) - 1)))
  \<close>
  as \<open>p_losses\<close> calls it, with the one-dimensional \<open>loss.shape\<close>: the entries of \<open>a\<close> at
  the indices \<open>t\<close>. \<open>gather\<close> takes no negative index and raises on an index out of range.
  (The name \<open>extract\<close> is a command of Isabelle, hence \<open>extract_at\<close>.)
\<close>

fun extract_at :: "fval list \<Rightarrow> int list \<Rightarrow> py_error + fval list" where
  "extract_at a [] = Inr []"
| "extract_at a (i # t) =
     (if 0 \<le> i \<and> i < int (length a)
      then (case extract_at a t of Inl e \<Rightarrow> Inl e | Inr ws \<Rightarrow> Inr (a ! nat i # ws))
      else Inl RuntimeError)"

text \<open>
  \<open>noise += offset_noise_strength * rearrange(offset_noise, 'b c -> b c 1 1')\<close>: one number
  for each image and channel, added at every position of the channel.
\<close>

definition add_offset_noise :: "real \<Rightarrow> fval list list \<Rightarrow> tensor \<Rightarrow> tensor" where
  "add_offset_noise strength offset_noise noise =
     map2 (\<lambda>im offs.
             map2 (\<lambda>ch off. map (map (\<lambda>v. fadd v (fmul (Fin strength) off))) ch) im offs)
          noise offset_noise"

text \<open>
  \<open>F.mse_loss(model_out, target, reduction = 'none')\<close> followed by
  \<open>reduce(loss, 'b ... -> b', 'mean')\<close>: for each image of the batch, the mean over its
  elements of the squared difference.
\<close>

definition mse_per_sample :: "tensor \<Rightarrow> tensor \<Rightarrow> fval list" where
  "mse_per_sample a b = map (\<lambda>im. fmean (flat_image im)) (tzip sq_err a b)"

text \<open>
  \<^verbatim>\<open>
  def p_losses(self, x_start, t, noise = None, offset_noise_strength = None):
      b, c, h, w = x_start.shape
      dip_input = get_noise(self.dip_input_depth, 'noise', (h, w)).to(self.device)
      dip_input = dip_input.expand(b, -1, -1, -1)
      dip_out = self.dip_model(dip_input)
      noise = default(noise, lambda: normalize_norm_dist(dip_out - x_start))
      offset_noise_strength = default(offset_noise_strength, self.offset_noise_strength)
      if offset_noise_strength > 0.:
          offset_noise = torch.randn(x_start.shape[:2], device = self.device)
          noise += offset_noise_strength * rearrange(offset_noise, 'b c -> b c 1 1')
      x = self.q_sample(x_start = x_start, t = t, noise = noise)
      x_self_cond = None
      if self.self_condition and random() < 0.5:
          with torch.no_grad():
              x_self_cond = self.model_predictions(x, t).pred_x_start
              x_self_cond.detach_()
      model_out = self.model(x, t, x_self_cond)
      if self.objective == 'pred_noise':
          target = noise
      elif self.objective == 'pred_x0':
          target = x_start
      elif self.objective == 'pred_v':
          v = self.predict_v(x_start, t, noise)
          target = v
      else:
          raise ValueError(f'unknown objective {self.objective}')
      loss = F.mse_loss(model_out, target, reduction = 'none')
      loss = reduce(loss, 'b ... -> b', 'mean')
      loss = loss * extract(self.loss_weight, t, loss.shape)
      dip_loss = F.mse_loss(dip_out, x_start)
      dip_loss = dip_loss.mean() * self.loss_weight[-1]
      return loss.mean() + dip_loss
  \<close>
\<close>

definition p_losses ::
  "'r diffusion \<Rightarrow> 'r draws \<Rightarrow> tensor \<Rightarrow> int list \<Rightarrow> tensor option \<Rightarrow> real option
     \<Rightarrow> py_error + fval" where
  "p_losses d dr x_start t noise_arg offset_arg =
     (case dims x_start of (b, c, h, w) \<Rightarrow>
        let dip_input = dr_get_noise dr (dip_input_depth d) (h, w)
        in case expand_batch dip_input b of
             Inl e \<Rightarrow> Inl e
           | Inr dip_input \<Rightarrow>
               let dip_out = dip_model d dip_input;
                   noise = (case noise_arg of
                              Some n \<Rightarrow> n
                            | None \<Rightarrow> normalize_norm_dist (tsub dip_out x_start));
                   strength = (case offset_arg of
                                 Some s \<Rightarrow> s
                               | None \<Rightarrow> offset_noise_strength d);
                   noise = (if strength > 0
                            then add_offset_noise strength (dr_offset dr) noise
                            else noise);
                   x = q_sample d x_start t noise;
                   x_self_cond =
                     (if self_condition d \<and> dr_random dr < 0.5
                      then Some (snd (model_predictions d x t None False False))
                      else None);
                   model_out = model d x t x_self_cond
               in case (if objective d = ''pred_noise'' then Inr noise
                        else if objective d = ''pred_x0'' then Inr x_start
                        else if objective d = ''pred_v'' then Inr (predict_v d x_start t noise)
                        else Inl ValueError) of
                    Inl e \<Rightarrow> Inl e
                  | Inr target \<Rightarrow>
                      let loss = mse_per_sample model_out target
                      in case extract_at (loss_weight d) t of
                           Inl e \<Rightarrow> Inl e
                         | Inr ws \<Rightarrow>
                             let loss = map2 fmul loss ws;
                                 dip_loss = mse_loss dip_out x_start
                             in case py_index (loss_weight d) (-1) of
                                  Inl e \<Rightarrow> Inl e
                                | Inr w_last \<Rightarrow>
                                    let dip_loss = fmul dip_loss w_last
                                    in Inr (fadd (fmean loss) dip_loss))"

text \<open>
  \<^verbatim>\<open>
  def forward(self, img, *args, **kwargs):
      b, c, h, w, device, img_size, = *img.shape, img.device, self.image_size
      assert h == img_size[0] and w == img_size[1], f'height and width of image must be {img_size}'
      t = torch.randint(0, self.num_timesteps, (b,), device=device).long()
      img = self.normalize(img)
      return self.p_losses(img, t, *args, **kwargs)
  \<close>
  \<open>torch.randint\<close> raises when the range \<open>[0, num_timesteps)\<close> is empty.
\<close>

definition forward ::
  "'r diffusion \<Rightarrow> 'r draws \<Rightarrow> tensor \<Rightarrow> tensor option \<Rightarrow> real option \<Rightarrow> py_error + fval" where
  "forward d dr img noise_arg offset_arg =
     (case dims img of (b, c, h, w) \<Rightarrow>
        if \<not> (h = fst (image_size d) \<and> w = snd (image_size d)) then Inl AssertionError
        else if num_timesteps d \<le> 0 then Inl RuntimeError
        else
          let t = dr_randint dr;
              img = normalize d img
          in p_losses d dr img t noise_arg offset_arg)"

section \<open>\<open>Trainer\<close>: training the diffusion model\<close>

text \<open>
  What the class takes from outside this file:
  \<^item> \<open>te_diffusion m training\<close>: the \<open>GaussianDiffusionWithDeepImagePrior\<close> object whose
    networks have the parameters \<open>m\<close>, in training or in evaluation mode;
  \<^item> \<open>te_autograd loss m\<close>: the gradient at \<open>m\<close> of the scalar \<open>loss\<close>, a function of the
    parameters, which \<open>loss.backward()\<close> adds to the gradient the parameters hold;
  \<^item> \<open>te_adam opt m g\<close>: \<open>opt.step()\<close> with the accumulated gradient \<open>g\<close>;
  \<^item> \<open>te_dl k\<close>: the \<open>k\<close>-th pair \<open>(data, noise)\<close> that \<open>cycle(dl)\<close> yields (the data
    loader shuffles a data set of at least 100 images, so every pass yields a batch and
    the generator never ends);
  \<^item> \<open>te_draws k\<close>: the random numbers of the forward call on the \<open>k\<close>-th pair, and
    \<open>te_sample_draws step i\<close>: those of the \<open>i\<close>-th sampling call at \<open>step\<close>;
  \<^item> \<open>te_fid m k\<close>: \<open>self.fid_scorer.fid_score()\<close>, the score for the parameters \<open>m\<close>, and
    the position of the data loader after the batches the scorer has taken from it;
  \<^item> \<open>te_has_int_squareroot n\<close>: \<open>(math.sqrt(n) ** 2) == n\<close> for \<open>n \<ge> 0\<close>, a
    floating-point test that is taken as given (for a negative \<open>n\<close>, \<open>math.sqrt\<close>
    raises \<open>ValueError\<close>, which \<open>Trainer_init\<close> writes out).
\<close>

record ('m, 'o, 'r) trainer_env =
  te_diffusion :: "'m \<Rightarrow> bool \<Rightarrow> 'r diffusion"
  te_autograd :: "('m \<Rightarrow> fval) \<Rightarrow> 'm \<Rightarrow> fval list"
  te_adam :: "'o \<Rightarrow> 'm \<Rightarrow> fval list \<Rightarrow> 'o \<times> 'm"
  te_dl :: "nat \<Rightarrow> tensor \<times> tensor"
  te_draws :: "nat \<Rightarrow> 'r draws"
  te_sample_draws :: "int \<Rightarrow> nat \<Rightarrow> 'r draws"
  te_fid :: "'m \<Rightarrow> nat \<Rightarrow> fval \<times> nat"
  te_has_int_squareroot :: "int \<Rightarrow> bool"

text \<open>
  The files \<open>Trainer\<close> writes into its results folder, by file name: a checkpoint
  \<open>{'step', 'model', 'opt'}\<close> and a grid of sampled images.
\<close>

datatype ('m, 'o) trainer_file =
    Checkpoint int 'm 'o
  | SampleGrid tensor

text \<open>
  The attributes of a \<open>Trainer\<close>. \<open>tr_ema\<close> is the attribute \<open>self.ema\<close>, which \<open>train\<close>
  reads: the parameters of its \<open>ema_model\<close>, or \<open>None\<close> when the object has no such
  attribute. \<open>tr_best_fid\<close> is \<open>self.best_fid\<close> in the same way. \<open>tr_grad\<close> is the
  gradient the parameters hold and \<open>tr_dl_pos\<close> counts the pairs taken from \<open>self.dl\<close>.
\<close>

record ('m, 'o) trainer =
  tr_model :: 'm
  tr_training :: bool
  tr_opt :: 'o
  tr_grad :: "fval list option"
  tr_ema :: "'m option"
  tr_step :: int
  tr_dl_pos :: nat
  tr_files :: "string \<rightharpoonup> ('m, 'o) trainer_file"
  tr_best_fid :: "fval option"
  tr_num_samples :: int
  tr_save_and_sample_every :: int
  tr_batch_size :: int
  tr_gradient_accumulate_every :: int
  tr_train_num_steps :: int
  tr_max_grad_norm :: real
  tr_calculate_fid :: bool
  tr_save_best_and_latest_only :: bool

text \<open>
  The keyword arguments of \<open>Trainer.__init__\<close> that the modelled methods depend on, with
  the number of images found in the folder. (\<open>ema_update_every\<close> and \<open>ema_decay\<close> are
  accepted by the constructor and used nowhere.)
\<close>

record trainer_args =
  ta_train_batch_size :: int
  ta_gradient_accumulate_every :: int
  ta_train_num_steps :: int
  ta_save_and_sample_every :: int
  ta_num_samples :: int
  ta_calculate_fid :: bool
  ta_max_grad_norm :: real
  ta_save_best_and_latest_only :: bool
  ta_dataset_size :: int

text \<open>
  \<open>Trainer.__init__\<close>, in the order of its assertions:
  \<^verbatim>\<open>
  assert has_int_squareroot(num_samples), ...
  self.num_samples = num_samples
  self.save_and_sample_every = save_and_sample_every
  self.batch_size = train_batch_size
  self.gradient_accumulate_every = gradient_accumulate_every
  assert (train_batch_size * gradient_accumulate_every) >= 16, ...
  self.train_num_steps = train_num_steps
  self.max_grad_norm = max_grad_norm
  self.ds = Dataset(...)
  assert len(self.ds) >= 100, ...
  self.dl = cycle(dl)
  self.opt = Adam(diffusion_model.parameters(), lr = train_lr, betas = adam_betas)
  self.results_folder.mkdir(exist_ok = True)
  self.step = 0
  self.calculate_fid = calculate_fid
  ...
  if save_best_and_latest_only:
      assert calculate_fid, ...
      self.best_fid = 1e10 # infinite
  self.save_best_and_latest_only = save_best_and_latest_only
  \<close>
  No line of the constructor assigns \<open>self.ema\<close>.
\<close>

definition Trainer_init ::
  "('m, 'o, 'r) trainer_env \<Rightarrow> 'm \<Rightarrow> bool \<Rightarrow> 'o \<Rightarrow> (string \<rightharpoonup> ('m, 'o) trainer_file)
     \<Rightarrow> trainer_args \<Rightarrow> py_error + ('m, 'o) trainer" where
  "Trainer_init env diffusion_model training opt0 folder args =
     (if ta_num_samples args < 0 then Inl ValueError
      else if \<not> te_has_int_squareroot env (ta_num_samples args) then Inl AssertionError
      else if \<not> (ta_train_batch_size args * ta_gradient_accumulate_every args \<ge> 16)
        then Inl AssertionError
      else if \<not> (ta_dataset_size args \<ge> 100) then Inl AssertionError
      else if ta_save_best_and_latest_only args \<and> \<not> ta_calculate_fid args
        then Inl AssertionError
      else Inr
        \<lparr> tr_model = diffusion_model, tr_training = training, tr_opt = opt0,
          tr_grad = None, tr_ema = None, tr_step = 0, tr_dl_pos = 0, tr_files = folder,
          tr_best_fid = (if ta_save_best_and_latest_only args then Some (Fin 10000000000)
                         else None),
          tr_num_samples = ta_num_samples args,
          tr_save_and_sample_every = ta_save_and_sample_every args,
          tr_batch_size = ta_train_batch_size args,
          tr_gradient_accumulate_every = ta_gradient_accumulate_every args,
          tr_train_num_steps = ta_train_num_steps args,
          tr_max_grad_norm = ta_max_grad_norm args,
          tr_calculate_fid = ta_calculate_fid args,
          tr_save_best_and_latest_only = ta_save_best_and_latest_only args \<rparr>)"

text \<open>
  \<^verbatim>\<open>
  def save(self, milestone):
      data = {'step': self.step, 'model': self.model.state_dict(),
              'opt': self.opt.state_dict()}
      torch.save(data, str(self.results_folder / f'model-{milestone}.pt'))

  def load(self, milestone):
      data = torch.load(str(self.results_folder / f'model-{milestone}.pt'), ...)
      self.model.load_state_dict(data['model'])
      self.step = data['step']
      self.opt.load_state_dict(data['opt'])
  \<close>
\<close>

definition checkpoint_name :: "milestone \<Rightarrow> string" where
  "checkpoint_name milestone = ''model-'' @ str_milestone milestone @ ''.pt''"

definition sample_name :: "int \<Rightarrow> string" where
  "sample_name milestone = ''sample-'' @ str_int milestone @ ''.png''"

definition Trainer_save :: "milestone \<Rightarrow> ('m, 'o) trainer \<Rightarrow> ('m, 'o) trainer" where
  "Trainer_save milestone st =
     st\<lparr>tr_files := (tr_files st)(checkpoint_name milestone \<mapsto>
           Checkpoint (tr_step st) (tr_model st) (tr_opt st))\<rparr>"

definition Trainer_load :: "milestone \<Rightarrow> ('m, 'o) trainer \<Rightarrow> py_error + ('m, 'o) trainer" where
  "Trainer_load milestone st =
     (case tr_files st (checkpoint_name milestone) of
        None \<Rightarrow> Inl FileNotFoundError
      | Some (Checkpoint s m opt) \<Rightarrow> Inr (st\<lparr>tr_model := m, tr_step := s, tr_opt := opt\<rparr>)
      | Some (SampleGrid _) \<Rightarrow> Inl UnpicklingError)"

text \<open>
  A method that raises leaves the object as it was changed up to that point: the result
  of a step of \<open>train\<close> is the trainer, returned or left behind by an exception.
\<close>

datatype 's outcome = Returned 's | Raised py_error 's

text \<open>\<open>loss.backward()\<close> adds the gradient to the one the parameters hold.\<close>

definition accumulate_grad :: "fval list option \<Rightarrow> fval list \<Rightarrow> fval list option" where
  "accumulate_grad held g =
     (case held of None \<Rightarrow> Some g | Some a \<Rightarrow> Some (map2 fadd a g))"

text \<open>\<open>opt.step()\<close>: parameters that hold no gradient are left alone.\<close>

definition opt_step :: "('m, 'o, 'r) trainer_env \<Rightarrow> ('m, 'o) trainer \<Rightarrow> ('m, 'o) trainer" where
  "opt_step env st =
     (case tr_grad st of
        None \<Rightarrow> st
      | Some g \<Rightarrow>
          let (opt', m') = te_adam env (tr_opt st) (tr_model st) g
          in st\<lparr>tr_opt := opt', tr_model := m'\<rparr>)"

text \<open>
  The inner loop of \<open>train\<close>, \<open>n\<close> passes still to go. (\<open>total_loss\<close> only feeds the text
  of the progress bar and is left out.)
  \<^verbatim>\<open>
  for _ in range(self.gradient_accumulate_every):
      data, noise = next(self.dl)
      data = data.to(device)
      noise = noise.to(device)
      loss = self.model(data, noise = noise)
      loss = loss / self.gradient_accumulate_every
      total_loss += loss.item()
      loss.backward()
  \<close>
\<close>

definition scaled_loss ::
  "('m, 'o, 'r) trainer_env \<Rightarrow> ('m, 'o) trainer \<Rightarrow> nat \<Rightarrow> 'm \<Rightarrow> py_error + fval" where
  "scaled_loss env st k m =
     (let (data, noise) = te_dl env k
      in case forward (te_diffusion env m (tr_training st)) (te_draws env k) data (Some noise) None of
           Inl e \<Rightarrow> Inl e
         | Inr loss \<Rightarrow> Inr (fdiv loss (Fin (real_of_int (tr_gradient_accumulate_every st)))))"

fun accumulate ::
  "('m, 'o, 'r) trainer_env \<Rightarrow> nat \<Rightarrow> ('m, 'o) trainer \<Rightarrow> ('m, 'o) trainer outcome" where
  "accumulate env 0 st = Returned st"
| "accumulate env (Suc n) st =
     (let k = tr_dl_pos st;
          st1 = st\<lparr>tr_dl_pos := Suc k\<rparr>
      in case scaled_loss env st1 k (tr_model st1) of
           Inl e \<Rightarrow> Raised e st1
         | Inr loss \<Rightarrow>
             let g = te_autograd env
                       (\<lambda>m. case scaled_loss env st1 k m of Inl e \<Rightarrow> NaN | Inr l \<Rightarrow> l)
                       (tr_model st1);
                 st2 = st1\<lparr>tr_grad := accumulate_grad (tr_grad st1) g\<rparr>
             in accumulate env n st2)"

text \<open>
  \<open>list(map(lambda n: self.ema.ema_model.sample(batch_size=n), batches))\<close>: \<open>self.ema\<close> is
  read at each call of the function, so at the first group. The calls have
  \<open>return_all_timesteps = False\<close>, and return a batch of images.
\<close>

fun sample_batches ::
  "('m, 'o, 'r) trainer_env \<Rightarrow> ('m, 'o) trainer \<Rightarrow> nat \<Rightarrow> int list \<Rightarrow> py_error + tensor list" where
  "sample_batches env st i [] = Inr []"
| "sample_batches env st i (n # ns) =
     (case tr_ema st of
        None \<Rightarrow> Inl AttributeError
      | Some ema_model \<Rightarrow>
          (case sample (te_diffusion env ema_model False) (te_sample_draws env (tr_step st) i) n False of
             Inl e \<Rightarrow> Inl e
           | Inr (AllTimesteps _) \<Rightarrow> Inl RuntimeError
           | Inr (Images imgs) \<Rightarrow>
               (case sample_batches env st (Suc i) ns of
                  Inl e \<Rightarrow> Inl e
                | Inr rest \<Rightarrow> Inr (imgs # rest))))"

text \<open>
  The periodic block of \<open>train\<close>, entered when the test on the step counter holds:
  \<^verbatim>\<open>
  self.model.eval()
  with torch.inference_mode():
      milestone = self.step // self.save_and_sample_every
      batches = num_to_groups(self.num_samples, self.batch_size)
      all_images_list = list(map(lambda n: self.ema.ema_model.sample(batch_size=n), batches))
  all_images = torch.cat(all_images_list, dim = 0)
  utils.save_image(all_images, str(self.results_folder / f'sample-{milestone}.png'),
                   nrow = int(math.sqrt(self.num_samples)))
  if self.calculate_fid:
      fid_score = self.fid_scorer.fid_score()
      print(f'fid_score: {fid_score}')
  if self.save_best_and_latest_only:
      if self.best_fid > fid_score:
          self.best_fid = fid_score
          self.save("best")
      self.save("latest")
  else:
      self.save(milestone)
  \<close>
  \<open>torch.cat\<close> of an empty list raises, \<open>math.sqrt\<close> of a negative number raises, and a
  name that was never bound raises \<open>NameError\<close>.
\<close>

definition sample_and_save ::
  "('m, 'o, 'r) trainer_env \<Rightarrow> ('m, 'o) trainer \<Rightarrow> ('m, 'o) trainer outcome" where
  "sample_and_save env st =
     (let st1 = st\<lparr>tr_training := False\<rparr>;
          milestone = tr_step st1 div tr_save_and_sample_every st1
      in case num_to_groups (tr_num_samples st1) (tr_batch_size st1) of
           Inl e \<Rightarrow> Raised e st1
         | Inr batches \<Rightarrow>
             (case sample_batches env st1 0 batches of
                Inl e \<Rightarrow> Raised e st1
              | Inr all_images_list \<Rightarrow>
                  if all_images_list = [] then Raised RuntimeError st1
                  else if tr_num_samples st1 < 0 then Raised ValueError st1
                  else
                    let all_images = concat all_images_list;
                        st2 = st1\<lparr>tr_files := (tr_files st1)(sample_name milestone \<mapsto>
                                      SampleGrid all_images)\<rparr>;
                        (fid_score, st3) =
                          (if tr_calculate_fid st2
                           then (let (score, pos) = te_fid env (tr_model st2) (tr_dl_pos st2)
                                 in (Some score, st2\<lparr>tr_dl_pos := pos\<rparr>))
                           else (None, st2))
                    in if tr_save_best_and_latest_only st3
                       then (case tr_best_fid st3 of
                               None \<Rightarrow> Raised AttributeError st3
                             | Some best \<Rightarrow>
                                 (case fid_score of
                                    None \<Rightarrow> Raised NameError st3
                                  | Some score \<Rightarrow>
                                      let st4 = (if fgreater best score
                                                 then Trainer_save (MName ''best'')
                                                        (st3\<lparr>tr_best_fid := Some score\<rparr>)
                                                 else st3)
                                      in Returned (Trainer_save (MName ''latest'') st4)))
                       else Returned (Trainer_save (MNum milestone) st3)))"

text \<open>
  The test that guards the periodic block,
  \<open>self.step != 0 and divisible_by(self.step, self.save_and_sample_every)\<close>; the second
  operand is evaluated only when the first holds.
\<close>

definition periodic_due :: "int \<Rightarrow> int \<Rightarrow> py_error + bool" where
  "periodic_due step every = (if step \<noteq> 0 then divisible_by step every else Inr False)"

text \<open>
  One pass through the body of the outer loop of \<open>train\<close>:
  \<^verbatim>\<open>
  total_loss = 0.
  for _ in range(self.gradient_accumulate_every):
      ...
  pbar.set_description(f'loss: {total_loss:.4f}')
  self.opt.step()
  self.opt.zero_grad()
  self.step += 1
  if self.step != 0 and divisible_by(self.step, self.save_and_sample_every):
      ...
  pbar.update(1)
  \<close>
\<close>

definition train_iter ::
  "('m, 'o, 'r) trainer_env \<Rightarrow> ('m, 'o) trainer \<Rightarrow> ('m, 'o) trainer outcome" where
  "train_iter env st =
     (case accumulate env (nat (tr_gradient_accumulate_every st)) st of
        Raised e st' \<Rightarrow> Raised e st'
      | Returned st1 \<Rightarrow>
          let st2 = opt_step env st1;
              st3 = st2\<lparr>tr_grad := None\<rparr>;
              st4 = st3\<lparr>tr_step := tr_step st3 + 1\<rparr>
          in case periodic_due (tr_step st4) (tr_save_and_sample_every st4) of
               Inl e \<Rightarrow> Raised e st4
             | Inr False \<Rightarrow> Returned st4
             | Inr True \<Rightarrow> sample_and_save env st4)"

lemma accumulate_fields:
  "accumulate env n st = Returned st' \<Longrightarrow>
     tr_step st' = tr_step st \<and> tr_train_num_steps st' = tr_train_num_steps st"
  by (induction n arbitrary: st) (auto simp: Let_def split: sum.splits)

lemma opt_step_fields:
  "tr_step (opt_step env st) = tr_step st
   \<and> tr_train_num_steps (opt_step env st) = tr_train_num_steps st"
  by (simp add: opt_step_def Let_def split: option.splits prod.splits)

lemma Trainer_save_fields:
  "tr_step (Trainer_save m st) = tr_step st
   \<and> tr_train_num_steps (Trainer_save m st) = tr_train_num_steps st"
  by (simp add: Trainer_save_def)

lemma sample_and_save_fields:
  "sample_and_save env st = Returned st' \<Longrightarrow>
     tr_step st' = tr_step st \<and> tr_train_num_steps st' = tr_train_num_steps st"
  by (auto simp: sample_and_save_def Let_def Trainer_save_fields
           split: sum.splits if_splits prod.splits option.splits)

lemma train_iter_fields:
  assumes "train_iter env st = Returned st'"
  shows "tr_step st' = tr_step st + 1 \<and> tr_train_num_steps st' = tr_train_num_steps st"
proof -
  from assms obtain st1 where a: "accumulate env (nat (tr_gradient_accumulate_every st)) st = Returned st1"
    by (auto simp: train_iter_def split: outcome.splits)
  let ?st4 = "(opt_step env st1)\<lparr>tr_grad := None, tr_step := tr_step (opt_step env st1) + 1\<rparr>"
  from accumulate_fields[OF a] opt_step_fields[of env st1]
  have f4: "tr_step ?st4 = tr_step st + 1" "tr_train_num_steps ?st4 = tr_train_num_steps st"
    by simp_all
  from assms a have "Returned ?st4 = Returned st' \<or> sample_and_save env ?st4 = Returned st'"
    by (auto simp: train_iter_def Let_def split: sum.splits bool.splits)
  then show ?thesis
  proof
    assume "Returned ?st4 = Returned st'"
    then have "st' = ?st4" by simp
    with f4 show ?thesis by simp
  next
    assume "sample_and_save env ?st4 = Returned st'"
    from sample_and_save_fields[OF this] f4 show ?thesis by simp
  qed
qed

text \<open>
  \<^verbatim>\<open>
  def train(self):
      device = self.device
      with tqdm(initial = self.step, total = self.train_num_steps) as pbar:
          while self.step < self.train_num_steps:
              ...
      print('training complete')
  \<close>
\<close>

function Trainer_train ::
  "('m, 'o, 'r) trainer_env \<Rightarrow> ('m, 'o) trainer \<Rightarrow> ('m, 'o) trainer outcome" where
  "Trainer_train env st =
     (if tr_step st < tr_train_num_steps st
      then (case train_iter env st of
              Raised e st' \<Rightarrow> Raised e st'
            | Returned st' \<Rightarrow> Trainer_train env st')
      else Returned st)"
  by pat_completeness auto
termination
  by (relation "measure (\<lambda>(env, st). nat (tr_train_num_steps st - tr_step st))")
     (auto dest: train_iter_fields)

declare Trainer_train.simps [simp del]

section \<open>Reference definitions and example inputs\<close>



text \<open>
  A small prior-network trainer to evaluate the definitions on: the network is the
  identity on its input, the gradient is empty, and an optimizer step counts itself in
  the optimizer state and in the parameters. The target image has two channels of one
  row and two columns.
\<close>

definition example_dip_env :: "(nat, nat) dip_env" where
  "example_dip_env =
     \<lparr> dip_net = (\<lambda>p training x. x),
       dip_autograd = (\<lambda>loss p. []),
       dip_adam = (\<lambda>opt p g. (Suc opt, Suc p)) \<rparr>"


definition example_dip_trainer :: "(nat, nat) dip_trainer" where
  "example_dip_trainer =
     DIPTrainer_init 0 [[[[Fin 1, Fin 2]], [[Fin 1, Fin 3]]]] 0
       [[[[Fin 4, Fin 1]], [[Fin 0, Fin 2]]]] Map.empty"


text \<open>A trainer whose network returns exactly its target image.\<close>

definition collapsed_dip_trainer :: "(nat, nat) dip_trainer" where
  "collapsed_dip_trainer =
     DIPTrainer_init 0 [[[[Fin 1, Fin 2]]]] 0 [[[[Fin 1, Fin 2]]]] Map.empty"


text \<open>The example trainer after three steps of training.\<close>

definition resumed_dip_trainer :: "(nat, nat) dip_trainer" where
  "resumed_dip_trainer = example_dip_trainer\<lparr>dt_step := 3, dt_opt := 3, dt_model := 3\<rparr>"


text \<open>
  A small diffusion model and trainer to evaluate the definitions on. Images have one
  channel, one row and three columns; the networks and the inherited methods return
  their input; the optimizer state is the list of the gradients the optimizer was given.
  The trainer is the one the constructor returns for a batch size of 1 with 16
  accumulation steps, sampling and saving every 2 steps, for 2 steps in all.
\<close>

definition example_draws :: "unit draws" where
  "example_draws =
     \<lparr> dr_get_noise = (\<lambda>depth hw. [[[[Fin (- 1), Fin 0, Fin 1]]]]),
       dr_randn = (\<lambda>k. [[[[Fin 0, Fin 0, Fin 0]]]]),
       dr_step = (\<lambda>t. ()),
       dr_offset = [[Fin 0]],
       dr_random = 1,
       dr_randint = [0] \<rparr>"

definition example_diffusion :: "unit diffusion" where
  "example_diffusion =
     \<lparr> num_timesteps = 1, sampling_timesteps = 1, ddim_sampling_eta = Fin 0,
       objective = ''pred_v'', self_condition = False, offset_noise_strength = 0,
       loss_weight = [Fin 1], alphas_cumprod = [Fin (1 / 2)], image_size = (1, 3),
       channels = 1, is_ddim_sampling = False, dip_input_depth = 1,
       dip_model = (\<lambda>x. x),
       model = (\<lambda>x t c. x),
       q_sample = (\<lambda>x t n. x),
       predict_v = (\<lambda>x t n. n),
       model_predictions = (\<lambda>x t c clip rederive. (x, x)),
       p_sample = (\<lambda>x t c r. (x, x)),
       normalize = (\<lambda>x. x),
       unnormalize = (\<lambda>v. v),
       linspace_int = (\<lambda>start end steps. Inr (map (\<lambda>i. start + int i) [0 ..< nat steps])) \<rparr>"

definition example_trainer_env :: "(nat, fval list list, unit) trainer_env" where
  "example_trainer_env =
     \<lparr> te_diffusion = (\<lambda>m training. example_diffusion),
       te_autograd = (\<lambda>loss m. [Fin 3, Fin 4]),
       te_adam = (\<lambda>opt m g. (opt @ [g], Suc m)),
       te_dl = (\<lambda>k. ([[[[Fin 1, Fin 2, Fin 3]]]], [[[[Fin 0, Fin 1, Fin 0]]]])),
       te_draws = (\<lambda>k. example_draws),
       te_sample_draws = (\<lambda>step i. example_draws),
       te_fid = (\<lambda>m k. (Fin 0, k)),
       te_has_int_squareroot = (\<lambda>n. n \<in> {0, 1, 4, 9, 16, 25}) \<rparr>"

definition example_trainer_args :: trainer_args where
  "example_trainer_args =
     \<lparr> ta_train_batch_size = 1, ta_gradient_accumulate_every = 16, ta_train_num_steps = 2,
       ta_save_and_sample_every = 2, ta_num_samples = 1, ta_calculate_fid = False,
       ta_max_grad_norm = 1, ta_save_best_and_latest_only = False,
       ta_dataset_size = 100 \<rparr>"

definition example_trainer :: "(nat, fval list list) trainer" where
  "example_trainer =
     \<lparr> tr_model = 0, tr_training = True, tr_opt = [], tr_grad = None, tr_ema = None,
       tr_step = 0, tr_dl_pos = 0, tr_files = Map.empty, tr_best_fid = None,
       tr_num_samples = 1, tr_save_and_sample_every = 2, tr_batch_size = 1,
       tr_gradient_accumulate_every = 16, tr_train_num_steps = 2, tr_max_grad_norm = 1,
       tr_calculate_fid = False, tr_save_best_and_latest_only = False \<rparr>"

text \<open>
  The example trainer one step before its first milestone, with an attribute \<open>ema\<close> that
  its caller has set.
\<close>

definition sampling_trainer :: "(nat, fval list list) trainer" where
  "sampling_trainer = example_trainer\<lparr>tr_ema := Some 0, tr_step := 1\<rparr>"

text \<open>
  The norm that \<open>max_grad_norm\<close> is a bound for: the 2-norm of a gradient.
\<close>

definition grad_norm :: "fval list \<Rightarrow> fval" where
  "grad_norm g = fsqrt (fsum (map (\<lambda>v. fmul v v) g))"

text \<open>
  The example diffusion model with another prior network in \<open>self.dip_model\<close>, one that
  negates its input.
\<close>

definition negating_diffusion :: "unit diffusion" where
  "negating_diffusion = example_diffusion\<lparr>dip_model := tmap fneg\<rparr>"

text \<open>The example trainer after its first pass through the outer loop.\<close>

definition stepped_trainer :: "(nat, fval list list) trainer" where
  "stepped_trainer =
     example_trainer\<lparr>tr_dl_pos := 16, tr_opt := [[Fin 48, Fin 64]], tr_model := 1,
                      tr_step := 1\<rparr>"

text \<open>
  What the noise artifact is not: the normalization of every channel of every image by
  its own mean and standard deviation. And the difference tensor of the example trainer
  with its four elements regrouped as two images of one channel.
\<close>

definition normalize_each_channel :: "tensor \<Rightarrow> tensor" where
  "normalize_each_channel x = map (map (\<lambda>ch. concat (concat (normalize_norm_dist [[ch]])))) x"

definition regrouped_difference :: tensor where
  "regrouped_difference = [[[[Fin 3, Fin (- 1)]]], [[[Fin (- 1), Fin (- 1)]]]]"

section \<open>Grouping a sample count into batches\<close>

lemma sum_list_replicate_int: "sum_list (replicate n (d::int)) = int n * d"
  by (induction n) (simp_all add: algebra_simps)

text \<open>
  Claim C10. For \<open>num \<ge> 0\<close> and \<open>divisor \<ge> 1\<close>, \<open>num_to_groups num divisor\<close> returns
  \<open>num div divisor\<close> groups equal to \<open>divisor\<close>, followed by one last group holding the
  remainder when that is positive; no group exceeds \<open>divisor\<close> and the groups sum to
  \<open>num\<close>. \<open>num_to_groups 50000 16\<close> is 3125 groups of 16 and \<open>num_to_groups 17 16\<close> is
  \<open>[16, 1]\<close>.
\<close>

theorem num_to_groups_spec:
  assumes "0 \<le> num" and "1 \<le> divisor"
  shows "(\<exists>gs. num_to_groups num divisor = Inr gs
           \<and> gs = replicate (nat (num div divisor)) divisor
                  @ (if num mod divisor > 0 then [num mod divisor] else [])
           \<and> (\<forall>g \<in> set gs. 0 < g \<and> g \<le> divisor)
           \<and> sum_list gs = num)
         \<and> num_to_groups 50000 16 = Inr (replicate 3125 16)
         \<and> num_to_groups 17 16 = Inr [16, 1]"
proof -
  let ?q = "num div divisor" and ?r = "num mod divisor"
  from assms have d: "divisor \<noteq> 0" "0 < divisor" by simp_all
  from assms have q: "0 \<le> ?q" by (simp add: pos_imp_zdiv_nonneg_iff)
  from d have r: "0 \<le> ?r" "?r < divisor" by simp_all
  have s: "int (nat ?q) * divisor + ?r = num" using q by simp
  have general: "\<exists>gs. num_to_groups num divisor = Inr gs
           \<and> gs = replicate (nat (num div divisor)) divisor
                  @ (if num mod divisor > 0 then [num mod divisor] else [])
           \<and> (\<forall>g \<in> set gs. 0 < g \<and> g \<le> divisor)
           \<and> sum_list gs = num"
    using d r s by (auto simp: num_to_groups_def Let_def sum_list_replicate_int)
  have ex1: "num_to_groups 50000 16 = Inr (replicate 3125 16)"
    by (simp add: num_to_groups_def Let_def)
  have ex2: "num_to_groups 17 16 = Inr [16, 1]"
    by (simp add: num_to_groups_def Let_def)
  from general ex1 ex2 show ?thesis by blast
qed

theorem num_to_groups_spec_witness:
  "(0::int) \<le> 17 \<and> (1::int) \<le> 16
   \<and> (\<exists>gs. num_to_groups 17 16 = Inr gs \<and> gs = [16, 1]
          \<and> sum_list gs = 17)
   \<and> num_to_groups 50000 16 = Inr (replicate 3125 16)"
  using num_to_groups_spec [of 17 16] by simp

section \<open>Facts about tensors\<close>

lemma map2_same: "map2 f xs xs = map (\<lambda>v. f v v) xs"
  by (induction xs) simp_all

lemma tzip_same: "tzip f x x = tmap (\<lambda>v. f v v) x"
  by (simp add: tzip_def tmap_def map2_same)

lemma flat_image_map: "flat_image (map (map (map f)) im) = map f (flat_image im)"
  by (simp add: flat_image_def map_concat)

lemma flat_tmap: "flat (tmap f x) = map f (flat x)"
  by (simp add: flat_def tmap_def map_concat flat_image_map comp_def)

lemma fsum_Fin: "fsum (map Fin rs) = Fin (sum_list rs)"
  by (induction rs) (simp_all add: fsum_def)

lemma torch_mean_Fin:
  "flat x = map Fin rs \<Longrightarrow> torch_mean x = fdiv (Fin (sum_list rs)) (Fin (real (length rs)))"
  by (simp add: torch_mean_def fmean_def fsum_Fin)

lemma torch_mean_Fin_nonempty:
  "flat x = map Fin rs \<Longrightarrow> rs \<noteq> [] \<Longrightarrow> torch_mean x = Fin (sum_list rs / real (length rs))"
  by (simp add: torch_mean_Fin)

lemma torch_std_Fin:
  assumes "flat x = map Fin rs" "2 \<le> length rs"
  shows "torch_std x =
           Fin (sqrt (sum_list (map (\<lambda>r. (r - sum_list rs / real (length rs))\<^sup>2) rs)
                      / real (length rs - 1)))"
proof -
  let ?mu = "sum_list rs / real (length rs)"
  from assms have ne: "rs \<noteq> []" by auto
  have m: "torch_mean x = Fin ?mu" using assms(1) ne by (rule torch_mean_Fin_nonempty)
  have sq: "map (\<lambda>v. fmul (fsub v (Fin ?mu)) (fsub v (Fin ?mu))) (map Fin rs)
            = map Fin (map (\<lambda>r. (r - ?mu)\<^sup>2) rs)"
    by (simp add: fsub_def power2_eq_square)
  have nonneg: "0 \<le> sum_list (map (\<lambda>r. (r - ?mu)\<^sup>2) rs)"
    by (rule sum_list_nonneg) auto
  have len: "real (length rs - 1) \<noteq> 0" using assms(2) by simp
  have len': "0 < real (length rs - 1)" using assms(2) by simp
  show ?thesis
    unfolding torch_std_def Let_def m assms(1) sq fsum_Fin length_map
    using len nonneg len' by (simp add: not_less divide_nonneg_pos del: of_nat_diff)
qed

lemma nth_tmap:
  "b < length x \<Longrightarrow> c < length (x ! b) \<Longrightarrow> i < length (x ! b ! c) \<Longrightarrow> j < length (x ! b ! c ! i)
   \<Longrightarrow> tmap f x ! b ! c ! i ! j = f (x ! b ! c ! i ! j)"
  by (simp add: tmap_def)

lemma generate_noise_fst:
  "fst (generate_noise env st) = normalize_norm_dist (tsub (fst (predict env st)) (dt_train_img st))"
  by (simp add: generate_noise_def predict_def Let_def)

section \<open>The noise artifact of a trained prior network\<close>

section \<open>A prior network that returns its target\<close>

lemma fsum_replicate_zero: "fsum (replicate n (Fin 0)) = Fin 0"
  by (induction n) (simp_all add: fsum_def)

lemma flat_tsub_same:
  "flat x = map Fin rs \<Longrightarrow> flat (tsub x x) = replicate (length rs) (Fin 0)"
  by (simp add: tsub_def tzip_same flat_tmap fsub_def map_replicate_const comp_def)

lemma torch_mean_zeros:
  "flat d = replicate n (Fin 0) \<Longrightarrow> 0 < n \<Longrightarrow> torch_mean d = Fin 0"
  by (simp add: torch_mean_def fmean_def fsum_replicate_zero)

lemma torch_std_zeros:
  assumes "flat d = replicate n (Fin 0)" "0 < n"
  shows "torch_std d = (if n = 1 then NaN else Fin 0)"
proof -
  have m: "torch_mean d = Fin 0" using assms by (rule torch_mean_zeros)
  have sq: "map (\<lambda>v. fmul (fsub v (Fin 0)) (fsub v (Fin 0))) (replicate n (Fin 0))
              = replicate n (Fin 0)"
    by (simp add: fsub_def)
  show ?thesis
    unfolding torch_std_def Let_def m assms(1) sq fsum_replicate_zero
    using assms(2) by (auto simp: inf_of_sign_def)
qed

lemma normalize_zeros:
  assumes "flat d = replicate n (Fin 0)" "0 < n"
  shows "flat (normalize_norm_dist d) = replicate n NaN"
proof -
  have m: "torch_mean d = Fin 0" using assms by (rule torch_mean_zeros)
  have s: "torch_std d = (if n = 1 then NaN else Fin 0)" using assms by (rule torch_std_zeros)
  show ?thesis
    unfolding normalize_norm_dist_def flat_tmap assms(1) m s
    by (simp add: fsub_def inf_of_sign_def)
qed

text \<open>
  Claim C9. When the output of the prior network equals the target image (a non-empty
  tensor of real numbers), the tensor that \<open>generate_noise\<close> passes to
  \<open>normalize_norm_dist\<close> is zero everywhere, its standard deviation is zero (not-a-number
  for a tensor of one element), and the division is carried out all the same: nothing is
  raised and no zero tensor is returned, every element of the result is \<open>0 / 0\<close>,
  not-a-number.
\<close>

theorem generate_noise_collapsed:
  assumes "fst (predict env st) = dt_train_img st"
      and "flat (dt_train_img st) = map Fin rs"
      and "rs \<noteq> []"
  shows "flat (tsub (fst (predict env st)) (dt_train_img st)) = replicate (length rs) (Fin 0)
         \<and> torch_std (tsub (fst (predict env st)) (dt_train_img st))
             = (if length rs = 1 then NaN else Fin 0)
         \<and> flat (fst (generate_noise env st)) = replicate (length rs) NaN"
proof -
  let ?d = "tsub (fst (predict env st)) (dt_train_img st)"
  have z: "flat ?d = replicate (length rs) (Fin 0)"
    unfolding assms(1) using assms(2) by (rule flat_tsub_same)
  from assms(3) have n: "0 < length rs" by simp
  from z n have s: "torch_std ?d = (if length rs = 1 then NaN else Fin 0)"
    by (rule torch_std_zeros)
  from z n have "flat (normalize_norm_dist ?d) = replicate (length rs) NaN"
    by (rule normalize_zeros)
  then have g: "flat (fst (generate_noise env st)) = replicate (length rs) NaN"
    by (simp add: generate_noise_fst)
  from z s g show ?thesis by blast
qed

lemma collapsed_predict:
  "fst (predict example_dip_env collapsed_dip_trainer) = dt_train_img collapsed_dip_trainer"
  by (simp add: predict_def example_dip_env_def collapsed_dip_trainer_def DIPTrainer_init_def Let_def)

lemma collapsed_flat:
  "flat (dt_train_img collapsed_dip_trainer) = map Fin [1, 2]"
  by (simp add: collapsed_dip_trainer_def DIPTrainer_init_def flat_def flat_image_def)

theorem generate_noise_collapsed_witness:
  "fst (predict example_dip_env collapsed_dip_trainer) = dt_train_img collapsed_dip_trainer
   \<and> flat (dt_train_img collapsed_dip_trainer) = map Fin [1, 2]
   \<and> flat (fst (generate_noise example_dip_env collapsed_dip_trainer)) = [NaN, NaN]
   \<and> torch_std (tsub (fst (predict example_dip_env collapsed_dip_trainer))
                      (dt_train_img collapsed_dip_trainer)) = Fin 0"
  using generate_noise_collapsed [OF collapsed_predict collapsed_flat]
        collapsed_predict collapsed_flat
  by (simp add: numeral_2_eq_2)

section \<open>The training loop of the prior network\<close>









section \<open>Checkpoints\<close>

lemma example_init:
  "Trainer_init example_trainer_env 0 True [] Map.empty example_trainer_args = Inr example_trainer"
  by (simp add: Trainer_init_def example_trainer_env_def example_trainer_args_def example_trainer_def)

lemma Trainer_load_after_save:
  assumes "tr_files st' (checkpoint_name m) = tr_files (Trainer_save m st) (checkpoint_name m)"
  shows "Trainer_load m st' = Inr (st'\<lparr>tr_model := tr_model st, tr_step := tr_step st, tr_opt := tr_opt st\<rparr>)"
  using assms by (simp add: Trainer_load_def Trainer_save_def)

lemma dip_load_after_save:
  assumes "dt_files st' (dip_checkpoint_name m) = dt_files (dip_save m st) (dip_checkpoint_name m)"
  shows "dip_load m st' = Inr (st'\<lparr>dt_step := dt_step st, dt_model := dt_model st,
                                    dt_model_input := dt_model_input st\<rparr>)"
  using assms by (simp add: dip_load_def dip_save_def)

text \<open>
  Claim C8. For the diffusion \<open>Trainer\<close> and for the \<open>DIPTrainer\<close>, saving a checkpoint
  at a milestone and then loading that milestone, whatever the fields of the trainer have
  become in between, restores the step counter and the model parameters, and the
  optimizer state (\<open>Trainer\<close>) or the fixed input tensor (\<open>DIPTrainer\<close>), to the values
  they had when saved.
\<close>

theorem checkpoint_round_trip:
  "(\<forall>st'. tr_files st' (checkpoint_name m) = tr_files (Trainer_save m st) (checkpoint_name m)
       \<longrightarrow> (\<exists>st''. Trainer_load m st' = Inr st''
              \<and> tr_step st'' = tr_step st \<and> tr_model st'' = tr_model st
              \<and> tr_opt st'' = tr_opt st))
   \<and> (\<forall>dst'. dt_files dst' (dip_checkpoint_name dm)
                = dt_files (dip_save dm dst) (dip_checkpoint_name dm)
       \<longrightarrow> (\<exists>dst''. dip_load dm dst' = Inr dst''
              \<and> dt_step dst'' = dt_step dst \<and> dt_model dst'' = dt_model dst
              \<and> dt_model_input dst'' = dt_model_input dst))"
  by (auto simp: Trainer_load_after_save dip_load_after_save)

theorem checkpoint_round_trip_witness:
  "(\<exists>st''. Trainer_load (MNum 1)
             ((Trainer_save (MNum 1) (example_trainer\<lparr>tr_step := 2, tr_model := 2\<rparr>))
                \<lparr>tr_step := 7, tr_model := 9, tr_opt := [[]]\<rparr>) = Inr st''
          \<and> tr_step st'' = 2 \<and> tr_model st'' = 2 \<and> tr_opt st'' = [])
   \<and> (\<exists>dst''. dip_load (MNum 1)
             ((dip_save (MNum 1) resumed_dip_trainer)
                \<lparr>dt_step := 0, dt_model := 0, dt_model_input := []\<rparr>) = Inr dst''
          \<and> dt_step dst'' = 3 \<and> dt_model dst'' = 3
          \<and> dt_model_input dst'' = [[[[Fin 4, Fin 1]], [[Fin 0, Fin 2]]]])"
proof -
  let ?st = "example_trainer\<lparr>tr_step := 2, tr_model := 2\<rparr>"
  let ?st' = "(Trainer_save (MNum 1) ?st)\<lparr>tr_step := 7, tr_model := 9, tr_opt := [[]]\<rparr>"
  let ?dst' = "(dip_save (MNum 1) resumed_dip_trainer)\<lparr>dt_step := 0, dt_model := 0, dt_model_input := []\<rparr>"
  note t = checkpoint_round_trip [of "MNum 1" ?st "MNum 1" resumed_dip_trainer]
  have a: "tr_files ?st' (checkpoint_name (MNum 1)) = tr_files (Trainer_save (MNum 1) ?st) (checkpoint_name (MNum 1))"
    by simp
  have b: "dt_files ?dst' (dip_checkpoint_name (MNum 1))
             = dt_files (dip_save (MNum 1) resumed_dip_trainer) (dip_checkpoint_name (MNum 1))"
    by simp
  from t a have 1: "\<exists>st''. Trainer_load (MNum 1) ?st' = Inr st''
              \<and> tr_step st'' = tr_step ?st \<and> tr_model st'' = tr_model ?st
              \<and> tr_opt st'' = tr_opt ?st" by blast
  from t b have 2: "\<exists>dst''. dip_load (MNum 1) ?dst' = Inr dst''
              \<and> dt_step dst'' = dt_step resumed_dip_trainer \<and> dt_model dst'' = dt_model resumed_dip_trainer
              \<and> dt_model_input dst'' = dt_model_input resumed_dip_trainer" by blast
  have 3: "tr_step ?st = 2" "tr_model ?st = 2" "tr_opt ?st = []"
    by (simp_all add: example_trainer_def)
  have 4: "dt_step resumed_dip_trainer = 3" "dt_model resumed_dip_trainer = 3"
     "dt_model_input resumed_dip_trainer = [[[[Fin 4, Fin 1]], [[Fin 0, Fin 2]]]]"
    by (simp_all add: resumed_dip_trainer_def example_dip_trainer_def DIPTrainer_init_def)
  from 1 2 show ?thesis unfolding 3 4 by blast
qed

section \<open>The outer training loop\<close>

lemma periodic_due_iff:
  "every \<noteq> 0 \<Longrightarrow> periodic_due step every = Inr (step \<noteq> 0 \<and> every dvd step)"
  by (auto simp: periodic_due_def divisible_by_def dvd_eq_mod_eq_0)

lemma example_forward:
  "forward example_diffusion example_draws [[[[Fin 1, Fin 2, Fin 3]]]]
     (Some [[[[Fin 0, Fin 1, Fin 0]]]]) None = Inr (Fin (23 / 3))"
  by (simp add: forward_def p_losses_def dims_def expand_batch_def example_diffusion_def
        example_draws_def Let_def mse_per_sample_def mse_loss_def tzip_def sq_err_def fsub_def
        fmean_def fsum_def flat_image_def flat_def torch_mean_def py_index_def)

lemma accumulate_ok:
  assumes "\<forall>m training k. \<exists>l. forward (te_diffusion env m training) (te_draws env k)
               (fst (te_dl env k)) (Some (snd (te_dl env k))) None = Inr l"
  shows "\<exists>g. accumulate env n st = Returned (st\<lparr>tr_grad := g, tr_dl_pos := tr_dl_pos st + n\<rparr>)"
proof (induction n arbitrary: st)
  case 0
  have "st = st\<lparr>tr_grad := tr_grad st, tr_dl_pos := tr_dl_pos st + 0\<rparr>" by simp
  then show ?case by (metis accumulate.simps(1))
next
  case (Suc n)
  let ?k = "tr_dl_pos st"
  let ?st1 = "st\<lparr>tr_dl_pos := Suc ?k\<rparr>"
  from assms obtain l where l: "forward (te_diffusion env (tr_model ?st1) (tr_training ?st1))
       (te_draws env ?k) (fst (te_dl env ?k)) (Some (snd (te_dl env ?k))) None = Inr l"
    by blast
  then have sl: "scaled_loss env ?st1 ?k (tr_model ?st1)
       = Inr (fdiv l (Fin (real_of_int (tr_gradient_accumulate_every ?st1))))"
    by (simp add: scaled_loss_def case_prod_beta)
  let ?g = "te_autograd env
              (\<lambda>m. case scaled_loss env ?st1 ?k m of Inl e \<Rightarrow> NaN | Inr l \<Rightarrow> l) (tr_model ?st1)"
  let ?st2 = "?st1\<lparr>tr_grad := accumulate_grad (tr_grad ?st1) ?g\<rparr>"
  from Suc[of ?st2] obtain g where
    "accumulate env n ?st2 = Returned (?st2\<lparr>tr_grad := g, tr_dl_pos := tr_dl_pos ?st2 + n\<rparr>)"
    by blast
  moreover have "accumulate env (Suc n) st = accumulate env n ?st2"
    using sl by (simp add: Let_def)
  ultimately have "accumulate env (Suc n) st = Returned (st\<lparr>tr_grad := g, tr_dl_pos := tr_dl_pos st + Suc n\<rparr>)"
    by simp
  then show ?case by blast
qed

lemma train_iter_after_accumulate:
  assumes "accumulate env (nat (tr_gradient_accumulate_every st)) st = Returned st1"
      and "tr_save_and_sample_every st1 \<noteq> 0"
  shows "train_iter env st =
           (if tr_step st1 + 1 \<noteq> 0 \<and> tr_save_and_sample_every st1 dvd tr_step st1 + 1
            then sample_and_save env ((opt_step env st1)\<lparr>tr_grad := None, tr_step := tr_step st1 + 1\<rparr>)
            else Returned ((opt_step env st1)\<lparr>tr_grad := None, tr_step := tr_step st1 + 1\<rparr>))"
proof -
  have o: "tr_step (opt_step env st1) = tr_step st1"
      "tr_save_and_sample_every (opt_step env st1) = tr_save_and_sample_every st1"
    by (simp_all add: opt_step_def Let_def split: option.splits prod.splits)
  show ?thesis
    using assms by (simp add: train_iter_def Let_def o periodic_due_iff)
qed

lemma names_differ: "sample_name i \<noteq> checkpoint_name m"
  by (simp add: sample_name_def checkpoint_name_def)

lemma sample_and_save_files:
  assumes "sample_and_save env st = Returned st'" and "\<not> tr_save_best_and_latest_only st"
  shows "(\<exists>imgs. tr_files st' (sample_name (tr_step st div tr_save_and_sample_every st))
                   = Some (SampleGrid imgs))
         \<and> tr_files st' (checkpoint_name (MNum (tr_step st div tr_save_and_sample_every st)))
             = Some (Checkpoint (tr_step st) (tr_model st) (tr_opt st))"
  using assms
  by (auto simp: sample_and_save_def Let_def Trainer_save_def names_differ
           split: sum.splits if_splits prod.splits)

text \<open>
  On the example: every forward call returns a loss, the sixteen passes of the inner loop
  accumulate the gradient \<open>[48, 64]\<close>, and with \<open>ema\<close> set the pass that reaches step 2
  writes \<open>sample-1.png\<close> and \<open>model-1.pt\<close>.
\<close>

lemma example_forward_ok:
  "\<forall>m training k. \<exists>l. forward (te_diffusion example_trainer_env m training)
      (te_draws example_trainer_env k) (fst (te_dl example_trainer_env k))
      (Some (snd (te_dl example_trainer_env k))) None = Inr l"
  by (simp add: example_trainer_env_def example_forward)

lemma example_sample:
  "\<exists>imgs. sample example_diffusion example_draws 1 False = Inr (Images imgs)"
  by (simp add: sample_def p_sample_loop_def initial_image_def expand_batch_def
        finish_sample_def example_diffusion_def example_draws_def Let_def)

lemma example_scaled_loss:
  "scaled_loss example_trainer_env st k m
     = Inr (fdiv (Fin (23 / 3)) (Fin (real_of_int (tr_gradient_accumulate_every st))))"
  by (simp add: scaled_loss_def example_trainer_env_def example_forward)

lemma example_autograd: "te_autograd example_trainer_env f m = [Fin 3, Fin 4]"
  by (simp add: example_trainer_env_def)

lemma example_accumulate_Suc:
  "accumulate example_trainer_env (Suc n) st
     = accumulate example_trainer_env n
         (st\<lparr>tr_dl_pos := Suc (tr_dl_pos st),
             tr_grad := accumulate_grad (tr_grad st) [Fin 3, Fin 4]\<rparr>)"
  by (simp add: example_scaled_loss example_autograd Let_def)

lemma example_accumulate_from:
  "tr_grad st = Some [Fin a, Fin b] \<Longrightarrow>
   accumulate example_trainer_env n st
     = Returned (st\<lparr>tr_dl_pos := tr_dl_pos st + n,
                    tr_grad := Some [Fin (a + 3 * real n), Fin (b + 4 * real n)]\<rparr>)"
proof (induction n arbitrary: st a b)
  case 0
  then show ?case by simp
next
  case (Suc n)
  let ?st = "st\<lparr>tr_dl_pos := Suc (tr_dl_pos st),
                 tr_grad := accumulate_grad (tr_grad st) [Fin 3, Fin 4]\<rparr>"
  from Suc.prems have g: "tr_grad ?st = Some [Fin (a + 3), Fin (b + 4)]"
    by (simp add: accumulate_grad_def)
  show ?case
    unfolding example_accumulate_Suc Suc.IH[OF g]
    by (simp add: algebra_simps)
qed

lemma example_accumulate_16:
  assumes "tr_grad st = None"
  shows "accumulate example_trainer_env 16 st
     = Returned (st\<lparr>tr_dl_pos := tr_dl_pos st + 16, tr_grad := Some [Fin 48, Fin 64]\<rparr>)"
proof -
  let ?st = "st\<lparr>tr_dl_pos := Suc (tr_dl_pos st),
                 tr_grad := accumulate_grad (tr_grad st) [Fin 3, Fin 4]\<rparr>"
  have s: "(16::nat) = Suc 15" by simp
  from assms have g: "tr_grad ?st = Some [Fin 3, Fin 4]"
    by (simp add: accumulate_grad_def)
  show ?thesis
    unfolding s example_accumulate_Suc example_accumulate_from[OF g]
    by simp
qed

lemma example_trainer_iter:
  "train_iter example_trainer_env example_trainer
     = Returned (example_trainer\<lparr>tr_dl_pos := 16, tr_opt := [[Fin 48, Fin 64]], tr_model := 1,
                                 tr_step := 1\<rparr>)"
proof -
  have n: "nat (tr_gradient_accumulate_every example_trainer) = 16"
    by (simp add: example_trainer_def)
  have g: "tr_grad example_trainer = None" by (simp add: example_trainer_def)
  have a: "accumulate example_trainer_env (nat (tr_gradient_accumulate_every example_trainer))
             example_trainer
           = Returned (example_trainer\<lparr>tr_dl_pos := tr_dl_pos example_trainer + 16,
                                       tr_grad := Some [Fin 48, Fin 64]\<rparr>)"
    unfolding n using g by (rule example_accumulate_16)
  have e: "tr_save_and_sample_every
             (example_trainer\<lparr>tr_dl_pos := tr_dl_pos example_trainer + 16,
                              tr_grad := Some [Fin 48, Fin 64]\<rparr>) \<noteq> 0"
    by (simp add: example_trainer_def)
  show ?thesis
    unfolding train_iter_after_accumulate[OF a e]
    by (simp add: example_trainer_def opt_step_def example_trainer_env_def)
qed

lemma sampling_trainer_iter:
  "\<exists>imgs. train_iter example_trainer_env sampling_trainer
     = Returned (sampling_trainer\<lparr>tr_dl_pos := 16, tr_opt := [[Fin 48, Fin 64]], tr_model := 1,
                                  tr_step := 2, tr_training := False,
                                  tr_files := [sample_name 1 \<mapsto> SampleGrid imgs,
                                               checkpoint_name (MNum 1) \<mapsto>
                                                 Checkpoint 2 1 [[Fin 48, Fin 64]]]\<rparr>)"
proof -
  have n: "nat (tr_gradient_accumulate_every sampling_trainer) = 16"
    by (simp add: sampling_trainer_def example_trainer_def)
  have g: "tr_grad sampling_trainer = None"
    by (simp add: sampling_trainer_def example_trainer_def)
  have a: "accumulate example_trainer_env (nat (tr_gradient_accumulate_every sampling_trainer))
             sampling_trainer
           = Returned (sampling_trainer\<lparr>tr_dl_pos := tr_dl_pos sampling_trainer + 16,
                                        tr_grad := Some [Fin 48, Fin 64]\<rparr>)"
    unfolding n using g by (rule example_accumulate_16)
  have e: "tr_save_and_sample_every
             (sampling_trainer\<lparr>tr_dl_pos := tr_dl_pos sampling_trainer + 16,
                               tr_grad := Some [Fin 48, Fin 64]\<rparr>) \<noteq> 0"
    by (simp add: sampling_trainer_def example_trainer_def)
  from example_sample obtain imgs where
    i: "sample example_diffusion example_draws 1 False = Inr (Images imgs)" by blast
  have d: "te_diffusion example_trainer_env m b = example_diffusion"
      "te_sample_draws example_trainer_env k j = example_draws"
      "te_adam example_trainer_env opt m gr = (opt @ [gr], Suc m)" for m b k j opt gr
    by (simp_all add: example_trainer_env_def)
  have "train_iter example_trainer_env sampling_trainer
     = Returned (sampling_trainer\<lparr>tr_dl_pos := 16, tr_opt := [[Fin 48, Fin 64]], tr_model := 1,
                                  tr_step := 2, tr_training := False,
                                  tr_files := [sample_name 1 \<mapsto> SampleGrid imgs,
                                               checkpoint_name (MNum 1) \<mapsto>
                                                 Checkpoint 2 1 [[Fin 48, Fin 64]]]\<rparr>)"
    unfolding train_iter_after_accumulate[OF a e]
    by (simp add: sampling_trainer_def example_trainer_def opt_step_def sample_and_save_def
          num_to_groups_def d i Let_def Trainer_save_def)
  then show ?thesis by blast
qed

section \<open>The first milestone of a constructed trainer\<close>

lemma num_to_groups_nonempty:
  assumes "0 < n" "0 < b"
  shows "\<exists>x xs. num_to_groups n b = Inr (x # xs)"
proof (cases "n mod b > 0")
  case True
  with assms have "num_to_groups n b = Inr (replicate (nat (n div b)) b @ [n mod b])"
    by (simp add: num_to_groups_def Let_def)
  then show ?thesis by (cases "replicate (nat (n div b)) b") auto
next
  case False
  with assms have m: "n mod b = 0" by (simp add: not_less order_antisym)
  then have "b dvd n" by (simp add: dvd_eq_mod_eq_0)
  with assms have "0 < n div b" by (metis pos_imp_zdiv_pos_iff zdvd_imp_le)
  then obtain k where k: "nat (n div b) = Suc k" by (metis Suc_pred' zero_less_nat_eq)
  from assms m have "num_to_groups n b = Inr (replicate (nat (n div b)) b)"
    by (simp add: num_to_groups_def Let_def)
  with k show ?thesis by simp
qed

lemma sample_and_save_no_ema:
  assumes "tr_ema st = None" "0 < tr_num_samples st" "0 < tr_batch_size st"
  shows "sample_and_save env st = Raised AttributeError (st\<lparr>tr_training := False\<rparr>)"
proof -
  from num_to_groups_nonempty[OF assms(2,3)] obtain x xs where
    "num_to_groups (tr_num_samples st) (tr_batch_size st) = Inr (x # xs)" by blast
  with assms(1) show ?thesis by (simp add: sample_and_save_def Let_def)
qed

lemma opt_step_frame: "\<exists>opt m. opt_step env st = st\<lparr>tr_opt := opt, tr_model := m\<rparr>"
proof (cases "tr_grad st")
  case None
  have "st = st\<lparr>tr_opt := tr_opt st, tr_model := tr_model st\<rparr>" by simp
  with None show ?thesis by (metis opt_step_def option.simps(4))
next
  case (Some g)
  then show ?thesis by (auto simp: opt_step_def Let_def split: prod.splits)
qed

lemma train_without_ema:
  assumes fwd: "\<forall>m training k. \<exists>l. forward (te_diffusion env m training) (te_draws env k)
               (fst (te_dl env k)) (Some (snd (te_dl env k))) None = Inr l"
  shows "tr_ema st = None \<Longrightarrow> 0 < tr_num_samples st \<Longrightarrow> 0 < tr_batch_size st \<Longrightarrow>
         0 \<le> tr_step st \<Longrightarrow> tr_step st < tr_save_and_sample_every st \<Longrightarrow>
         tr_save_and_sample_every st \<le> tr_train_num_steps st \<Longrightarrow>
         n = nat (tr_save_and_sample_every st - tr_step st - 1) \<Longrightarrow>
         \<exists>st'. Trainer_train env st = Raised AttributeError st'
               \<and> tr_step st' = tr_save_and_sample_every st \<and> tr_files st' = tr_files st"
proof (induction n arbitrary: st)
  case 0
  from accumulate_ok[OF fwd] obtain g where
    a: "accumulate env (nat (tr_gradient_accumulate_every st)) st
        = Returned (st\<lparr>tr_grad := g, tr_dl_pos := tr_dl_pos st + nat (tr_gradient_accumulate_every st)\<rparr>)"
    by blast
  let ?st1 = "st\<lparr>tr_grad := g, tr_dl_pos := tr_dl_pos st + nat (tr_gradient_accumulate_every st)\<rparr>"
  from opt_step_frame[of env ?st1] obtain opt m where o: "opt_step env ?st1 = ?st1\<lparr>tr_opt := opt, tr_model := m\<rparr>"
    by blast
  let ?st4 = "(opt_step env ?st1)\<lparr>tr_grad := None, tr_step := tr_step ?st1 + 1\<rparr>"
  from "0.prems" have e: "tr_save_and_sample_every ?st1 \<noteq> 0" by simp
  from "0.prems" have due: "tr_step st + 1 = tr_save_and_sample_every st" by simp
  have "sample_and_save env ?st4 = Raised AttributeError (?st4\<lparr>tr_training := False\<rparr>)"
    using "0.prems" by (intro sample_and_save_no_ema) (simp_all add: o)
  then have "train_iter env st = Raised AttributeError (?st4\<lparr>tr_training := False\<rparr>)"
    unfolding train_iter_after_accumulate[OF a e] using due "0.prems" by simp
  moreover from "0.prems" have "tr_step st < tr_train_num_steps st" by simp
  ultimately have "Trainer_train env st = Raised AttributeError (?st4\<lparr>tr_training := False\<rparr>)"
    by (simp add: Trainer_train.simps)
  moreover have "tr_step (?st4\<lparr>tr_training := False\<rparr>) = tr_save_and_sample_every st"
    using due by simp
  moreover have "tr_files (?st4\<lparr>tr_training := False\<rparr>) = tr_files st"
    by (simp add: o)
  ultimately show ?case by blast
next
  case (Suc n)
  from accumulate_ok[OF fwd] obtain g where
    a: "accumulate env (nat (tr_gradient_accumulate_every st)) st
        = Returned (st\<lparr>tr_grad := g, tr_dl_pos := tr_dl_pos st + nat (tr_gradient_accumulate_every st)\<rparr>)"
    by blast
  let ?st1 = "st\<lparr>tr_grad := g, tr_dl_pos := tr_dl_pos st + nat (tr_gradient_accumulate_every st)\<rparr>"
  from opt_step_frame[of env ?st1] obtain opt m where o: "opt_step env ?st1 = ?st1\<lparr>tr_opt := opt, tr_model := m\<rparr>"
    by blast
  let ?st4 = "(opt_step env ?st1)\<lparr>tr_grad := None, tr_step := tr_step ?st1 + 1\<rparr>"
  from Suc.prems have e: "tr_save_and_sample_every ?st1 \<noteq> 0" by simp
  from Suc.prems have lt: "tr_step st + 1 < tr_save_and_sample_every st" by simp
  with Suc.prems have nd: "\<not> tr_save_and_sample_every st dvd tr_step st + 1"
    by (intro zdvd_not_zless) simp_all
  have it: "train_iter env st = Returned ?st4"
    unfolding train_iter_after_accumulate[OF a e] using nd by simp
  from Suc.prems have "tr_step st < tr_train_num_steps st" by simp
  with it have tt: "Trainer_train env st = Trainer_train env ?st4"
    by (simp add: Trainer_train.simps)
  have "\<exists>st'. Trainer_train env ?st4 = Raised AttributeError st'
               \<and> tr_step st' = tr_save_and_sample_every ?st4 \<and> tr_files st' = tr_files ?st4"
    using Suc.prems lt by (intro Suc.IH) (simp_all add: o)
  then show ?case unfolding tt by (simp add: o)
qed

text \<open>
  Claim C2, on the code. \<open>Trainer.__init__\<close> never assigns \<open>self.ema\<close>, which the
  periodic block reads. For a trainer as the constructor returns it, with
  \<open>0 < save_and_sample_every \<le> train_num_steps\<close>, a positive number of samples and a
  positive batch size, and forward calls that return, \<open>train\<close> does not complete the
  first milestone: it raises \<open>AttributeError\<close> with the step counter at
  \<open>save_and_sample_every\<close> and the results folder as it was, with no sample grid and no
  checkpoint written.
\<close>

theorem train_raises_at_first_milestone:
  assumes "Trainer_init env diffusion_model training opt0 folder args = Inr st0"
      and "0 < ta_save_and_sample_every args"
      and "ta_save_and_sample_every args \<le> ta_train_num_steps args"
      and "0 < ta_num_samples args"
      and "0 < ta_train_batch_size args"
      and "\<forall>m training k. \<exists>l. forward (te_diffusion env m training) (te_draws env k)
               (fst (te_dl env k)) (Some (snd (te_dl env k))) None = Inr l"
  shows "tr_ema st0 = None
         \<and> (\<exists>st'. Trainer_train env st0 = Raised AttributeError st'
                \<and> tr_step st' = ta_save_and_sample_every args
                \<and> tr_files st' = folder)"
proof -
  from assms(1) have st0: "tr_ema st0 = None" "tr_step st0 = 0" "tr_files st0 = folder"
      "tr_num_samples st0 = ta_num_samples args"
      "tr_batch_size st0 = ta_train_batch_size args"
      "tr_save_and_sample_every st0 = ta_save_and_sample_every args"
      "tr_train_num_steps st0 = ta_train_num_steps args"
    by (auto simp: Trainer_init_def split: if_splits)
  have "\<exists>st'. Trainer_train env st0 = Raised AttributeError st'
               \<and> tr_step st' = tr_save_and_sample_every st0 \<and> tr_files st' = tr_files st0"
    using assms(2-5) st0 by (intro train_without_ema[OF assms(6)]) simp_all
  with st0 show ?thesis by simp
qed

theorem train_raises_at_first_milestone_witness:
  "Trainer_init example_trainer_env 0 True [] Map.empty example_trainer_args = Inr example_trainer
   \<and> ta_save_and_sample_every example_trainer_args = 2
   \<and> ta_train_num_steps example_trainer_args = 2
   \<and> (\<exists>st'. Trainer_train example_trainer_env example_trainer = Raised AttributeError st'
          \<and> tr_step st' = 2 \<and> tr_files st' = Map.empty)"
proof -
  have a: "0 < ta_save_and_sample_every example_trainer_args"
      "ta_save_and_sample_every example_trainer_args \<le> ta_train_num_steps example_trainer_args"
      "0 < ta_num_samples example_trainer_args"
      "0 < ta_train_batch_size example_trainer_args"
    by (simp_all add: example_trainer_args_def)
  from train_raises_at_first_milestone[OF example_init a example_forward_ok]
  show ?thesis using example_init by (simp add: example_trainer_args_def)
qed

section \<open>The gradient handed to the optimizer\<close>

lemma scaled_loss_cong:
  "tr_training st = tr_training st' \<Longrightarrow>
   tr_gradient_accumulate_every st = tr_gradient_accumulate_every st' \<Longrightarrow>
   scaled_loss env st k m = scaled_loss env st' k m"
  by (simp add: scaled_loss_def split: prod.splits sum.splits)

lemma accumulate_mgn:
  "accumulate env n (st\<lparr>tr_max_grad_norm := c\<rparr>)
     = map_outcome (\<lambda>s. s\<lparr>tr_max_grad_norm := c\<rparr>) (accumulate env n st)"
proof (induction n arbitrary: st)
  case 0
  show ?case by simp
next
  case (Suc n)
  let ?k = "tr_dl_pos st"
  let ?st1 = "st\<lparr>tr_dl_pos := Suc ?k\<rparr>"
  let ?c1 = "st\<lparr>tr_max_grad_norm := c\<rparr>\<lparr>tr_dl_pos := Suc ?k\<rparr>"
  have sl: "scaled_loss env ?c1 ?k m = scaled_loss env ?st1 ?k m" for m
    by (rule scaled_loss_cong) simp_all
  show ?case
  proof (cases "scaled_loss env ?st1 ?k (tr_model st)")
    case (Inl e)
    then show ?thesis by (simp add: Let_def sl)
  next
    case (Inr l)
    let ?g = "te_autograd env
                (\<lambda>m. case scaled_loss env ?st1 ?k m of Inl e \<Rightarrow> NaN | Inr l \<Rightarrow> l) (tr_model st)"
    let ?st2 = "?st1\<lparr>tr_grad := accumulate_grad (tr_grad st) ?g\<rparr>"
    have l: "accumulate env (Suc n) st = accumulate env n ?st2"
      using Inr by (simp add: Let_def)
    have e: "?c1\<lparr>tr_grad := accumulate_grad (tr_grad st) ?g\<rparr> = ?st2\<lparr>tr_max_grad_norm := c\<rparr>"
      by simp
    have "accumulate env (Suc n) (st\<lparr>tr_max_grad_norm := c\<rparr>)
               = accumulate env n (?c1\<lparr>tr_grad := accumulate_grad (tr_grad st) ?g\<rparr>)"
      using Inr by (simp add: Let_def sl)
    then have r: "accumulate env (Suc n) (st\<lparr>tr_max_grad_norm := c\<rparr>)
               = accumulate env n (?st2\<lparr>tr_max_grad_norm := c\<rparr>)"
      unfolding e .
    show ?thesis unfolding l r by (rule Suc.IH)
  qed
qed

lemma opt_step_mgn:
  "opt_step env (st\<lparr>tr_max_grad_norm := c\<rparr>) = (opt_step env st)\<lparr>tr_max_grad_norm := c\<rparr>"
  by (simp add: opt_step_def Let_def split: option.splits prod.splits)

lemma sample_batches_mgn:
  "sample_batches env (st\<lparr>tr_max_grad_norm := c\<rparr>) i ns = sample_batches env st i ns"
  by (induction ns arbitrary: i) (simp_all split: option.splits sum.splits sample_out.splits)

lemma Trainer_save_mgn:
  "Trainer_save m (st\<lparr>tr_max_grad_norm := c\<rparr>) = (Trainer_save m st)\<lparr>tr_max_grad_norm := c\<rparr>"
  by (simp add: Trainer_save_def)

lemma sample_and_save_mgn:
  "sample_and_save env (st\<lparr>tr_max_grad_norm := c\<rparr>)
     = map_outcome (\<lambda>s. s\<lparr>tr_max_grad_norm := c\<rparr>) (sample_and_save env st)"
proof -
  let ?s1 = "st\<lparr>tr_training := False\<rparr>"
  have u: "st\<lparr>tr_max_grad_norm := c, tr_training := False\<rparr> = ?s1\<lparr>tr_max_grad_norm := c\<rparr>"
    by simp
  show ?thesis
  proof (cases "num_to_groups (tr_num_samples st) (tr_batch_size st)")
    case (Inl e)
    then show ?thesis by (simp add: sample_and_save_def Let_def u)
  next
    case batches: (Inr batches)
    show ?thesis
    proof (cases "sample_batches env ?s1 0 batches")
      case (Inl e)
      with batches show ?thesis
        by (simp add: sample_and_save_def Let_def u sample_batches_mgn)
    next
      case imgs: (Inr imgs)
      show ?thesis
      proof (cases "imgs = [] \<or> tr_num_samples st < 0")
        case True
        with batches imgs show ?thesis
          by (auto simp: sample_and_save_def Let_def u sample_batches_mgn)
      next
        case False
        show ?thesis
        proof (cases "tr_save_best_and_latest_only st")
          case nb: False
          with batches imgs False show ?thesis
            by (cases "tr_calculate_fid st")
               (simp_all add: sample_and_save_def Let_def u sample_batches_mgn
                  Trainer_save_def case_prod_beta)
        next
          case b: True
          show ?thesis
          proof (cases "tr_best_fid st")
            case None
            with batches imgs False b show ?thesis
              by (cases "tr_calculate_fid st")
                 (simp_all add: sample_and_save_def Let_def u sample_batches_mgn
                    Trainer_save_def case_prod_beta)
          next
            case (Some best)
            with batches imgs False b show ?thesis
              by (cases "tr_calculate_fid st")
                 (simp_all add: sample_and_save_def Let_def u sample_batches_mgn
                    Trainer_save_def case_prod_beta)
          qed
        qed
      qed
    qed
  qed
qed

lemma train_iter_mgn:
  "train_iter env (st\<lparr>tr_max_grad_norm := c\<rparr>)
     = map_outcome (\<lambda>s. s\<lparr>tr_max_grad_norm := c\<rparr>) (train_iter env st)"
proof (cases "accumulate env (nat (tr_gradient_accumulate_every st)) st")
  case (Raised e st')
  then show ?thesis by (simp add: train_iter_def accumulate_mgn)
next
  case (Returned st1)
  let ?st4 = "(opt_step env st1)\<lparr>tr_grad := None, tr_step := tr_step (opt_step env st1) + 1\<rparr>"
  have u: "(opt_step env st1)\<lparr>tr_max_grad_norm := c, tr_grad := None,
              tr_step := tr_step (opt_step env st1) + 1\<rparr> = ?st4\<lparr>tr_max_grad_norm := c\<rparr>"
    by simp
  show ?thesis
    using Returned
    by (simp add: train_iter_def accumulate_mgn opt_step_mgn Let_def u sample_and_save_mgn
          split: sum.splits bool.splits)
qed

lemma opt_step_applies:
  "tr_grad st1 = Some g \<Longrightarrow>
   (tr_opt (opt_step env st1), tr_model (opt_step env st1))
     = te_adam env (tr_opt st1) (tr_model st1) g"
  by (simp add: opt_step_def Let_def split: prod.splits)

text \<open>
  Claim C5, on the code. The constructor stores \<open>max_grad_norm\<close> and \<open>train\<close> never reads
  it: a pass through the outer loop with another \<open>max_grad_norm\<close> does the same, and when
  the inner loop has returned with the accumulated gradient \<open>g\<close>, the one optimizer step
  of the pass is taken with \<open>g\<close> itself, after which the gradient is cleared and the step
  counter is increased by 1. On the example, with \<open>max_grad_norm = 1\<close>, the optimizer is
  given the gradient \<open>[48, 64]\<close>, of norm 80.
\<close>

theorem train_iter_applies_unclipped_gradient:
  "train_iter env (st\<lparr>tr_max_grad_norm := c\<rparr>)
     = map_outcome (\<lambda>s. s\<lparr>tr_max_grad_norm := c\<rparr>) (train_iter env st)
   \<and> (\<forall>st1 g. accumulate env (nat (tr_gradient_accumulate_every st)) st = Returned st1
               \<and> tr_grad st1 = Some g \<and> tr_save_and_sample_every st1 \<noteq> 0
         \<longrightarrow> (tr_opt (opt_step env st1), tr_model (opt_step env st1))
               = te_adam env (tr_opt st1) (tr_model st1) g
             \<and> train_iter env st =
                (if tr_step st1 + 1 \<noteq> 0 \<and> tr_save_and_sample_every st1 dvd tr_step st1 + 1
                 then sample_and_save env
                        ((opt_step env st1)\<lparr>tr_grad := None, tr_step := tr_step st1 + 1\<rparr>)
                 else Returned ((opt_step env st1)\<lparr>tr_grad := None, tr_step := tr_step st1 + 1\<rparr>)))"
  using train_iter_mgn opt_step_applies train_iter_after_accumulate by blast

lemma grad_norm_example: "grad_norm [Fin 48, Fin 64] = Fin 80"
proof -
  have "sqrt 6400 = 80" by (rule real_sqrt_unique) simp_all
  then show ?thesis by (simp add: grad_norm_def fsum_def)
qed

theorem train_iter_applies_unclipped_gradient_witness:
  "tr_max_grad_norm example_trainer = 1
   \<and> accumulate example_trainer_env (nat (tr_gradient_accumulate_every example_trainer))
        example_trainer
      = Returned (example_trainer\<lparr>tr_dl_pos := 16, tr_grad := Some [Fin 48, Fin 64]\<rparr>)
   \<and> grad_norm [Fin 48, Fin 64] = Fin 80
   \<and> train_iter example_trainer_env example_trainer
      = Returned (example_trainer\<lparr>tr_dl_pos := 16, tr_opt := [[Fin 48, Fin 64]], tr_model := 1,
                                  tr_step := 1\<rparr>)
   \<and> train_iter example_trainer_env (example_trainer\<lparr>tr_max_grad_norm := 1000\<rparr>)
      = Returned (example_trainer\<lparr>tr_dl_pos := 16, tr_opt := [[Fin 48, Fin 64]], tr_model := 1,
                                  tr_step := 1, tr_max_grad_norm := 1000\<rparr>)"
proof -
  let ?st1 = "example_trainer\<lparr>tr_dl_pos := 16, tr_grad := Some [Fin 48, Fin 64]\<rparr>"
  note t = train_iter_applies_unclipped_gradient
             [where env = example_trainer_env and st = example_trainer and c = 1000]
  have g: "tr_grad example_trainer = None" by (simp add: example_trainer_def)
  have a: "accumulate example_trainer_env (nat (tr_gradient_accumulate_every example_trainer))
             example_trainer = Returned ?st1"
    using example_accumulate_16[OF g] by (simp add: example_trainer_def)
  have h: "tr_grad ?st1 = Some [Fin 48, Fin 64]" "tr_save_and_sample_every ?st1 \<noteq> 0"
    by (simp_all add: example_trainer_def)
  from t a h have i: "train_iter example_trainer_env example_trainer =
                (if tr_step ?st1 + 1 \<noteq> 0 \<and> tr_save_and_sample_every ?st1 dvd tr_step ?st1 + 1
                 then sample_and_save example_trainer_env
                        ((opt_step example_trainer_env ?st1)\<lparr>tr_grad := None, tr_step := tr_step ?st1 + 1\<rparr>)
                 else Returned ((opt_step example_trainer_env ?st1)\<lparr>tr_grad := None, tr_step := tr_step ?st1 + 1\<rparr>))"
    by blast
  have i': "train_iter example_trainer_env example_trainer
      = Returned (example_trainer\<lparr>tr_dl_pos := 16, tr_opt := [[Fin 48, Fin 64]], tr_model := 1,
                                  tr_step := 1\<rparr>)"
    unfolding i by (simp add: example_trainer_def opt_step_def example_trainer_env_def)
  from t have "train_iter example_trainer_env (example_trainer\<lparr>tr_max_grad_norm := 1000\<rparr>)
     = map_outcome (\<lambda>s. s\<lparr>tr_max_grad_norm := 1000\<rparr>) (train_iter example_trainer_env example_trainer)"
    by blast
  then have j: "train_iter example_trainer_env (example_trainer\<lparr>tr_max_grad_norm := 1000\<rparr>)
      = Returned (example_trainer\<lparr>tr_dl_pos := 16, tr_opt := [[Fin 48, Fin 64]], tr_model := 1,
                                  tr_step := 1, tr_max_grad_norm := 1000\<rparr>)"
    unfolding i' by simp
  have m: "tr_max_grad_norm example_trainer = 1" by (simp add: example_trainer_def)
  from m a grad_norm_example i' j show ?thesis by blast
qed

section \<open>The loss of the diffusion model\<close>

lemma extract_at_in_range:
  "\<forall>i \<in> set t. 0 \<le> i \<and> i < int (length a) \<Longrightarrow>
   extract_at a t = Inr (map (\<lambda>i. a ! nat i) t)"
  by (induction t) simp_all

lemma py_index_last: "a \<noteq> [] \<Longrightarrow> py_index a (- 1) = Inr (last a)"
proof -
  assume a: "a \<noteq> []"
  then have n: "nat (int (length a) - 1) = length a - 1" by (cases a) simp_all
  from a have p: "0 \<le> int (length a) - 1" by (cases a) simp_all
  show ?thesis
    unfolding py_index_def using a p by (simp add: n last_conv_nth)
qed

lemma expand_batch_one: "expand_batch [im] (int n) = Inr (replicate n im)"
  by (cases "n = 1") (auto simp: expand_batch_def)

section \<open>The image the reverse process starts from\<close>

lemma initial_image_eq:
  assumes "dr_get_noise dr (dip_input_depth d) (h, w) = [im]" and "0 \<le> batch"
  shows "initial_image d dr (batch, c, h, w)
           = Inr (normalize_norm_dist (dip_model d (replicate (nat batch) im)))"
proof -
  from assms(2) have "expand_batch [im] batch = Inr (replicate (nat batch) im)"
    using expand_batch_one[of im "nat batch"] by simp
  with assms(1) show ?thesis by (simp add: initial_image_def Let_def)
qed

lemma p_sample_steps_hd:
  "imgs \<noteq> [] \<Longrightarrow> hd (snd (p_sample_steps d dr ts img xs imgs)) = hd imgs"
  by (induction ts arbitrary: img xs imgs) (simp_all add: Let_def split: prod.splits)

lemma ddim_steps_hd:
  "ddim_steps d dr batch ps k img xs imgs = Inr (img', imgs') \<Longrightarrow> imgs \<noteq> [] \<Longrightarrow>
   hd imgs' = hd imgs"
proof (induction ps arbitrary: k img xs imgs)
  case Nil
  then show ?case by simp
next
  case (Cons p ps)
  obtain time time_next where p: "p = (time, time_next)" by (cases p) auto
  from Cons.prems show ?case
    unfolding p
    by (auto simp: Let_def split: if_splits prod.splits sum.splits dest!: Cons.IH)
qed

text \<open>
  The claim as stated has the network created for the call, so that the first image
  would depend on nothing the object retains. Two diffusion objects that differ only in
  the network held in \<open>self.dip_model\<close>, sampled with the same random draws, start from
  different images.
\<close>

lemma flat_example: "flat [[[[Fin a, Fin b, Fin c]]]] = map Fin [a, b, c]"
  by (simp add: flat_def flat_image_def)

lemma normalize_example:
  "normalize_norm_dist [[[[Fin (- 1), Fin 0, Fin 1]]]] = [[[[Fin (- 1), Fin 0, Fin 1]]]]"
proof -
  let ?x = "[[[[Fin (- 1), Fin 0, Fin 1]]]]"
  have ne: "[- 1, 0, 1 :: real] \<noteq> []" by simp
  have l: "2 \<le> length [- 1, 0, 1 :: real]" by simp
  have m: "torch_mean ?x = Fin 0"
    using torch_mean_Fin_nonempty[OF flat_example ne] by simp
  have s: "torch_std ?x = Fin 1"
    using torch_std_Fin[OF flat_example l] by simp
  show ?thesis
    unfolding normalize_norm_dist_def m s by (simp add: tmap_def fsub_def)
qed

lemma normalize_example_neg:
  "normalize_norm_dist [[[[Fin 1, Fin 0, Fin (- 1)]]]] = [[[[Fin 1, Fin 0, Fin (- 1)]]]]"
proof -
  let ?x = "[[[[Fin 1, Fin 0, Fin (- 1)]]]]"
  have ne: "[1, 0, - 1 :: real] \<noteq> []" by simp
  have l: "2 \<le> length [1, 0, - 1 :: real]" by simp
  have m: "torch_mean ?x = Fin 0"
    using torch_mean_Fin_nonempty[OF flat_example ne] by simp
  have s: "torch_std ?x = Fin 1"
    using torch_std_Fin[OF flat_example l] by simp
  show ?thesis
    unfolding normalize_norm_dist_def m s by (simp add: tmap_def fsub_def)
qed

lemma example_initial_image:
  "initial_image example_diffusion example_draws (1, 1, 1, 3) = Inr [[[[Fin (- 1), Fin 0, Fin 1]]]]"
  by (simp add: initial_image_def expand_batch_def example_diffusion_def example_draws_def
        normalize_example)

lemma negating_initial_image:
  "initial_image negating_diffusion example_draws (1, 1, 1, 3) = Inr [[[[Fin 1, Fin 0, Fin (- 1)]]]]"
  by (simp add: initial_image_def expand_batch_def negating_diffusion_def example_diffusion_def
        example_draws_def tmap_def normalize_example_neg)

lemma example_times:
  "linspace_int example_diffusion (- 1) 0 2 = Inr [- 1, 0]"
  "linspace_int negating_diffusion (- 1) 0 2 = Inr [- 1, 0]"
  by (simp_all add: negating_diffusion_def example_diffusion_def numeral_2_eq_2)

theorem sampling_prior_counterexample:
  "dip_input_depth negating_diffusion = dip_input_depth example_diffusion
   \<and> p_sample_loop example_diffusion example_draws (1, 1, 1, 3) True
       = Inr (AllTimesteps [[[[[Fin (- 1), Fin 0, Fin 1]]], [[[Fin (- 1), Fin 0, Fin 1]]]]])
   \<and> p_sample_loop negating_diffusion example_draws (1, 1, 1, 3) True
       = Inr (AllTimesteps [[[[[Fin 1, Fin 0, Fin (- 1)]]], [[[Fin 1, Fin 0, Fin (- 1)]]]]])
   \<and> ddim_sample example_diffusion example_draws (1, 1, 1, 3) True
       = Inr (AllTimesteps [[[[[Fin (- 1), Fin 0, Fin 1]]], [[[Fin (- 1), Fin 0, Fin 1]]]]])
   \<and> ddim_sample negating_diffusion example_draws (1, 1, 1, 3) True
       = Inr (AllTimesteps [[[[[Fin 1, Fin 0, Fin (- 1)]]], [[[Fin 1, Fin 0, Fin (- 1)]]]]])"
proof -
  have c: "num_timesteps example_diffusion = 1" "sampling_timesteps example_diffusion = 1"
      "num_timesteps negating_diffusion = 1" "sampling_timesteps negating_diffusion = 1"
      "self_condition example_diffusion = False" "self_condition negating_diffusion = False"
      "p_sample example_diffusion = (\<lambda>x t c r. (x, x))"
      "p_sample negating_diffusion = (\<lambda>x t c r. (x, x))"
      "model_predictions example_diffusion = (\<lambda>x t c clip rederive. (x, x))"
      "model_predictions negating_diffusion = (\<lambda>x t c clip rederive. (x, x))"
      "unnormalize example_diffusion = (\<lambda>v. v)" "unnormalize negating_diffusion = (\<lambda>v. v)"
      "dip_input_depth negating_diffusion = dip_input_depth example_diffusion"
    by (simp_all add: negating_diffusion_def example_diffusion_def)
  have tr: "transpose [[im1], [im2]] = [[im1, im2]]" for im1 im2 :: image
    by (simp add: transpose.simps)
  have 1: "p_sample_loop example_diffusion example_draws (1, 1, 1, 3) True
       = Inr (AllTimesteps [[[[[Fin (- 1), Fin 0, Fin 1]]], [[[Fin (- 1), Fin 0, Fin 1]]]]])"
    by (simp add: p_sample_loop_def example_initial_image c finish_sample_def tr tmap_def Let_def)
  have 2: "p_sample_loop negating_diffusion example_draws (1, 1, 1, 3) True
       = Inr (AllTimesteps [[[[[Fin 1, Fin 0, Fin (- 1)]]], [[[Fin 1, Fin 0, Fin (- 1)]]]]])"
    by (simp add: p_sample_loop_def negating_initial_image c finish_sample_def tr tmap_def Let_def)
  have 3: "ddim_sample example_diffusion example_draws (1, 1, 1, 3) True
       = Inr (AllTimesteps [[[[[Fin (- 1), Fin 0, Fin 1]]], [[[Fin (- 1), Fin 0, Fin 1]]]]])"
    by (simp add: ddim_sample_def example_initial_image c example_times
          finish_sample_def tr tmap_def Let_def)
  have 4: "ddim_sample negating_diffusion example_draws (1, 1, 1, 3) True
       = Inr (AllTimesteps [[[[[Fin 1, Fin 0, Fin (- 1)]]], [[[Fin 1, Fin 0, Fin (- 1)]]]]])"
    by (simp add: ddim_sample_def negating_initial_image c example_times
          finish_sample_def tr tmap_def Let_def)
  from c(13) 1 2 3 4 show ?thesis by blast
qed

section \<open>The periodic block of a trainer without \<open>ema\<close>\<close>

lemma accumulate_frame:
  "accumulate env n st = Returned st1 \<Longrightarrow>
   \<exists>g p. st1 = st\<lparr>tr_grad := g, tr_dl_pos := p\<rparr>"
proof (induction n arbitrary: st)
  case 0
  then have "st1 = st\<lparr>tr_grad := tr_grad st, tr_dl_pos := tr_dl_pos st\<rparr>" by simp
  then show ?case by blast
next
  case (Suc n)
  let ?k = "tr_dl_pos st"
  let ?st1 = "st\<lparr>tr_dl_pos := Suc ?k\<rparr>"
  show ?case
  proof (cases "scaled_loss env ?st1 ?k (tr_model st)")
    case (Inl e)
    with Suc.prems show ?thesis by (simp add: Let_def)
  next
    case (Inr l)
    let ?g = "te_autograd env
                (\<lambda>m. case scaled_loss env ?st1 ?k m of Inl e \<Rightarrow> NaN | Inr l \<Rightarrow> l) (tr_model st)"
    let ?st2 = "?st1\<lparr>tr_grad := accumulate_grad (tr_grad st) ?g\<rparr>"
    from Suc.prems Inr have "accumulate env n ?st2 = Returned st1" by (simp add: Let_def)
    from Suc.IH[OF this] obtain g p where "st1 = ?st2\<lparr>tr_grad := g, tr_dl_pos := p\<rparr>" by blast
    then have "st1 = st\<lparr>tr_grad := g, tr_dl_pos := p\<rparr>" by simp
    then show ?thesis by blast
  qed
qed

text \<open>
  Claim C7, on the code. The test on the step counter is the one the claim states: for
  a nonzero \<open>save_and_sample_every\<close> it holds exactly when the new step counter is
  nonzero and a multiple of it. But on a trainer whose \<open>ema\<close> was never set, which is
  every trainer the constructor returns and every trainer \<open>train\<close> leaves, the pass that
  meets the test does not sample, save or evaluate: it puts the model in evaluation mode
  and raises \<open>AttributeError\<close>, and the results folder is as before. A pass that does
  not meet the test returns and writes nothing either. So the periodic actions are
  carried out at no step.
\<close>

theorem periodic_block_raises_without_ema:
  assumes "tr_save_and_sample_every st \<noteq> 0"
      and "tr_ema st = None"
      and "0 < tr_num_samples st"
      and "0 < tr_batch_size st"
      and "accumulate env (nat (tr_gradient_accumulate_every st)) st = Returned st1"
  shows "periodic_due (tr_step st + 1) (tr_save_and_sample_every st)
           = Inr (tr_step st + 1 \<noteq> 0 \<and> tr_save_and_sample_every st dvd tr_step st + 1)
     \<and> (if tr_step st + 1 \<noteq> 0 \<and> tr_save_and_sample_every st dvd tr_step st + 1
        then \<exists>st'. train_iter env st = Raised AttributeError st'
                 \<and> tr_step st' = tr_step st + 1 \<and> tr_files st' = tr_files st
                 \<and> tr_training st' = False \<and> tr_ema st' = None
        else \<exists>st'. train_iter env st = Returned st'
                 \<and> tr_step st' = tr_step st + 1 \<and> tr_files st' = tr_files st
                 \<and> tr_ema st' = None)"
proof -
  from accumulate_frame[OF assms(5)] obtain g p where
    st1: "st1 = st\<lparr>tr_grad := g, tr_dl_pos := p\<rparr>" by blast
  from opt_step_frame[of env "st\<lparr>tr_grad := g, tr_dl_pos := p\<rparr>"] obtain opt m where
    o: "opt_step env (st\<lparr>tr_grad := g, tr_dl_pos := p\<rparr>)
          = st\<lparr>tr_grad := g, tr_dl_pos := p\<rparr>\<lparr>tr_opt := opt, tr_model := m\<rparr>" by blast
  let ?st4 = "(opt_step env st1)\<lparr>tr_grad := None, tr_step := tr_step st1 + 1\<rparr>"
  have e: "tr_save_and_sample_every st1 \<noteq> 0" using assms(1) by (simp add: st1)
  have f: "tr_step st1 = tr_step st" "tr_save_and_sample_every st1 = tr_save_and_sample_every st"
    by (simp_all add: st1)
  have due: "periodic_due (tr_step st + 1) (tr_save_and_sample_every st)
           = Inr (tr_step st + 1 \<noteq> 0 \<and> tr_save_and_sample_every st dvd tr_step st + 1)"
    using assms(1) by (rule periodic_due_iff)
  have s: "sample_and_save env ?st4 = Raised AttributeError (?st4\<lparr>tr_training := False\<rparr>)"
    using assms(2-4) by (intro sample_and_save_no_ema) (simp_all add: st1 o)
  have fields: "tr_step ?st4 = tr_step st + 1" "tr_files ?st4 = tr_files st" "tr_ema ?st4 = None"
    using assms(2) by (simp_all add: st1 o)
  have ti: "train_iter env st =
              (if tr_step st + 1 \<noteq> 0 \<and> tr_save_and_sample_every st dvd tr_step st + 1
               then sample_and_save env ?st4 else Returned ?st4)"
    using train_iter_after_accumulate[OF assms(5) e] by (simp add: f)
  show ?thesis
  proof (cases "tr_step st + 1 \<noteq> 0 \<and> tr_save_and_sample_every st dvd tr_step st + 1")
    case True
    have "train_iter env st = Raised AttributeError (?st4\<lparr>tr_training := False\<rparr>)"
      unfolding ti if_P[OF True] by (rule s)
    moreover have "tr_step (?st4\<lparr>tr_training := False\<rparr>) = tr_step st + 1"
        "tr_files (?st4\<lparr>tr_training := False\<rparr>) = tr_files st"
        "tr_training (?st4\<lparr>tr_training := False\<rparr>) = False"
        "tr_ema (?st4\<lparr>tr_training := False\<rparr>) = None"
      using fields by simp_all
    ultimately have "\<exists>st'. train_iter env st = Raised AttributeError st'
                 \<and> tr_step st' = tr_step st + 1 \<and> tr_files st' = tr_files st
                 \<and> tr_training st' = False \<and> tr_ema st' = None"
      by blast
    with due show ?thesis unfolding if_P[OF True] by blast
  next
    case False
    have "train_iter env st = Returned ?st4"
      unfolding ti if_not_P[OF False] by (rule refl)
    with fields have "\<exists>st'. train_iter env st = Returned st'
                 \<and> tr_step st' = tr_step st + 1 \<and> tr_files st' = tr_files st
                 \<and> tr_ema st' = None"
      by blast
    with due show ?thesis unfolding if_not_P[OF False] by blast
  qed
qed

theorem periodic_block_raises_without_ema_witness:
  "tr_save_and_sample_every stepped_trainer = 2 \<and> tr_step stepped_trainer = 1
   \<and> tr_ema stepped_trainer = None
   \<and> train_iter example_trainer_env example_trainer = Returned stepped_trainer
   \<and> periodic_due 2 2 = Inr True
   \<and> (\<exists>st'. train_iter example_trainer_env stepped_trainer = Raised AttributeError st'
          \<and> tr_step st' = 2 \<and> tr_files st' = Map.empty \<and> tr_ema st' = None)"
proof -
  have c: "tr_save_and_sample_every stepped_trainer = 2" "tr_step stepped_trainer = 1"
      "tr_ema stepped_trainer = None" "tr_files stepped_trainer = Map.empty"
      "tr_grad stepped_trainer = None"
      "nat (tr_gradient_accumulate_every stepped_trainer) = 16"
    by (simp_all add: stepped_trainer_def example_trainer_def)
  have h: "tr_save_and_sample_every stepped_trainer \<noteq> 0" "0 < tr_num_samples stepped_trainer"
      "0 < tr_batch_size stepped_trainer"
    by (simp_all add: stepped_trainer_def example_trainer_def)
  have a: "accumulate example_trainer_env (nat (tr_gradient_accumulate_every stepped_trainer))
             stepped_trainer
           = Returned (stepped_trainer\<lparr>tr_dl_pos := tr_dl_pos stepped_trainer + 16,
                                       tr_grad := Some [Fin 48, Fin 64]\<rparr>)"
    unfolding c(6) using c(5) by (rule example_accumulate_16)
  note t = periodic_block_raises_without_ema [OF h(1) c(3) h(2) h(3) a]
  from t have d: "periodic_due 2 2 = Inr True" by (simp add: c)
  from t have r: "\<exists>st'. train_iter example_trainer_env stepped_trainer = Raised AttributeError st'
          \<and> tr_step st' = 2 \<and> tr_files st' = Map.empty \<and> tr_ema st' = None"
    by (simp add: c) blast
  have i: "train_iter example_trainer_env example_trainer = Returned stepped_trainer"
    unfolding stepped_trainer_def by (rule example_trainer_iter)
  from c d r i show ?thesis by blast
qed

section \<open>The noise artifact is normalized over the whole tensor\<close>

lemma map_eq_nth:
  "map g xs = map g ys \<Longrightarrow> i < length xs \<Longrightarrow> g (xs ! i) = g (ys ! i) \<and> length xs = length ys"
  by (metis length_map nth_map)

lemma map2_nth:
  "i < length xs \<Longrightarrow> length xs = length ys \<Longrightarrow> map2 f xs ys ! i = f (xs ! i) (ys ! i)"
  by simp

lemma shape_tmap: "shape (tmap f x) = shape x"
  by (simp add: shape_def tmap_def comp_def)

lemma map2_preserves:
  assumes "map g xs = map g ys" and "\<And>a b. g a = g b \<Longrightarrow> g (h a b) = g a"
  shows "map g (map2 h xs ys) = map g xs"
proof (rule nth_equalityI)
  from assms(1) have l: "length xs = length ys" by (metis length_map)
  show "length (map g (map2 h xs ys)) = length (map g xs)" using l by simp
  fix i assume "i < length (map g (map2 h xs ys))"
  with l have i: "i < length xs" by simp
  from map_eq_nth[OF assms(1) i] have "g (xs ! i) = g (ys ! i)" by simp
  from assms(2)[OF this] show "map g (map2 h xs ys) ! i = map g xs ! i" using i l by simp
qed

lemma rows_zip_shape:
  fixes f :: "fval \<Rightarrow> fval \<Rightarrow> fval" and ch ch' :: "fval list list"
  assumes "map length ch = map length ch'"
  shows "map length (map2 (map2 f) ch ch') = map length ch"
proof -
  have "\<And>a b :: fval list. length a = length b \<Longrightarrow> length (map2 f a b) = length a" by simp
  from map2_preserves[of length ch ch' "\<lambda>a b. map2 f a b", OF assms this]
  show ?thesis .
qed

lemma image_zip_shape:
  fixes f :: "fval \<Rightarrow> fval \<Rightarrow> fval" and im im' :: image
  assumes "map (map length) im = map (map length) im'"
  shows "map (map length) (map2 (map2 (map2 f)) im im') = map (map length) im"
proof -
  have "\<And>a b :: fval list list. map length a = map length b \<Longrightarrow> map length (map2 (map2 f) a b) = map length a"
    by (rule rows_zip_shape)
  from map2_preserves[of "map length" im im' "\<lambda>a b. map2 (map2 f) a b", OF assms this]
  show ?thesis .
qed

lemma shape_tzip:
  assumes "shape x = shape y"
  shows "shape (tzip f x y) = shape x"
proof -
  have "\<And>a b :: image. map (map length) a = map (map length) b \<Longrightarrow>
          map (map length) (map2 (map2 (map2 f)) a b) = map (map length) a"
    by (rule image_zip_shape)
  from map2_preserves[of "map (map length)" x y "\<lambda>a b. map2 (map2 (map2 f)) a b",
        OF assms[unfolded shape_def] this]
  show ?thesis unfolding shape_def tzip_def .
qed

lemma nth_tzip:
  assumes s: "shape x = shape y"
      and b: "b < length x" and c: "c < length (x ! b)"
      and i: "i < length (x ! b ! c)" and j: "j < length (x ! b ! c ! i)"
  shows "tzip f x y ! b ! c ! i ! j = f (x ! b ! c ! i ! j) (y ! b ! c ! i ! j)"
proof -
  from s have s': "map (map (map length)) x = map (map (map length)) y" by (simp add: shape_def)
  from map_eq_nth[OF s' b] have 1: "map (map length) (x ! b) = map (map length) (y ! b)"
    and l1: "length x = length y" by simp_all
  from map_eq_nth[OF 1 c] have 2: "map length (x ! b ! c) = map length (y ! b ! c)"
    and l2: "length (x ! b) = length (y ! b)" by simp_all
  from map_eq_nth[OF 2 i] have l4: "length (x ! b ! c ! i) = length (y ! b ! c ! i)"
    and l3: "length (x ! b ! c) = length (y ! b ! c)" by simp_all
  have "tzip f x y ! b = map2 (map2 (map2 f)) (x ! b) (y ! b)"
    unfolding tzip_def using b l1 by (rule map2_nth)
  also have "\<dots> ! c = map2 (map2 f) (x ! b ! c) (y ! b ! c)"
    using c l2 by (rule map2_nth)
  also have "\<dots> ! i = map2 f (x ! b ! c ! i) (y ! b ! c ! i)"
    using i l3 by (rule map2_nth)
  also have "\<dots> ! j = f (x ! b ! c ! i ! j) (y ! b ! c ! i ! j)"
    using j l4 by (rule map2_nth)
  finally show ?thesis .
qed

lemma shape_lengths:
  "shape x = shape y \<Longrightarrow> length x = length y"
  by (metis shape_def length_map)

lemma normalize_flat:
  "flat (normalize_norm_dist x) = map (\<lambda>v. fdiv (fsub v (torch_mean x)) (torch_std x)) (flat x)"
  by (simp add: normalize_norm_dist_def flat_tmap)

lemma moments_of_flat:
  "flat x = flat y \<Longrightarrow> torch_mean x = torch_mean y \<and> torch_std x = torch_std y"
  by (simp add: torch_mean_def torch_std_def)

text \<open>
  Claim C4. When the output of \<open>predict\<close> has the shape of the target image,
  \<open>generate_noise\<close> returns \<open>normalize_norm_dist (predict () - train_img)\<close>, of that
  shape: at every position \<open>[b][c][i][j]\<close> the difference of the two elements, less the
  mean of the difference tensor, over its standard deviation. The mean and the standard
  deviation are taken over the whole tensor: they, and the normalized elements in
  order, are the same for every tensor with the same elements in the same order,
  however these are grouped into images, channels and rows, so the normalization is
  neither per channel nor per sample.
\<close>

theorem generate_noise_global:
  assumes "out = fst (predict env st)"
      and "shape out = shape (dt_train_img st)"
      and "d = tsub out (dt_train_img st)"
  shows "fst (generate_noise env st) = normalize_norm_dist d
     \<and> shape d = shape out \<and> shape (normalize_norm_dist d) = shape out
     \<and> (\<forall>b c i j. b < length out \<and> c < length (out ! b) \<and> i < length (out ! b ! c)
                  \<and> j < length (out ! b ! c ! i) \<longrightarrow>
            d ! b ! c ! i ! j = fsub (out ! b ! c ! i ! j) (dt_train_img st ! b ! c ! i ! j)
          \<and> normalize_norm_dist d ! b ! c ! i ! j
              = fdiv (fsub (d ! b ! c ! i ! j) (torch_mean d)) (torch_std d))
     \<and> (\<forall>d'. flat d' = flat d \<longrightarrow>
            torch_mean d' = torch_mean d \<and> torch_std d' = torch_std d
          \<and> flat (normalize_norm_dist d') = flat (normalize_norm_dist d))"
proof -
  have g: "fst (generate_noise env st) = normalize_norm_dist d"
    unfolding assms(3) assms(1) by (rule generate_noise_fst)
  have sd: "shape d = shape out"
    unfolding assms(3) tsub_def using assms(2) by (rule shape_tzip)
  have sn: "shape (normalize_norm_dist d) = shape out"
    unfolding normalize_norm_dist_def shape_tmap by (rule sd)
  have el: "\<forall>b c i j. b < length out \<and> c < length (out ! b) \<and> i < length (out ! b ! c)
                  \<and> j < length (out ! b ! c ! i) \<longrightarrow>
            d ! b ! c ! i ! j = fsub (out ! b ! c ! i ! j) (dt_train_img st ! b ! c ! i ! j)
          \<and> normalize_norm_dist d ! b ! c ! i ! j
              = fdiv (fsub (d ! b ! c ! i ! j) (torch_mean d)) (torch_std d)"
  proof (intro allI impI)
    fix b c i j
    assume r: "b < length out \<and> c < length (out ! b) \<and> i < length (out ! b ! c)
                  \<and> j < length (out ! b ! c ! i)"
    then have b: "b < length out" and c: "c < length (out ! b)"
      and i: "i < length (out ! b ! c)" and j: "j < length (out ! b ! c ! i)" by simp_all
    have e1: "d ! b ! c ! i ! j = fsub (out ! b ! c ! i ! j) (dt_train_img st ! b ! c ! i ! j)"
      unfolding assms(3) tsub_def using assms(2) b c i j by (rule nth_tzip)
    from sd have s': "map (map (map length)) out = map (map (map length)) d"
      by (simp add: shape_def)
    from map_eq_nth[OF s' b] have 1: "map (map length) (out ! b) = map (map length) (d ! b)"
      and l1: "length out = length d" by simp_all
    from map_eq_nth[OF 1 c] have 2: "map length (out ! b ! c) = map length (d ! b ! c)"
      and l2: "length (out ! b) = length (d ! b)" by simp_all
    from map_eq_nth[OF 2 i] have l4: "length (out ! b ! c ! i) = length (d ! b ! c ! i)"
      and l3: "length (out ! b ! c) = length (d ! b ! c)" by simp_all
    have e2: "normalize_norm_dist d ! b ! c ! i ! j
              = fdiv (fsub (d ! b ! c ! i ! j) (torch_mean d)) (torch_std d)"
      unfolding normalize_norm_dist_def
      using b c i j l1 l2 l3 l4 by (intro nth_tmap) simp_all
    from e1 e2 show "d ! b ! c ! i ! j = fsub (out ! b ! c ! i ! j) (dt_train_img st ! b ! c ! i ! j)
          \<and> normalize_norm_dist d ! b ! c ! i ! j
              = fdiv (fsub (d ! b ! c ! i ! j) (torch_mean d)) (torch_std d)" by blast
  qed
  have gl: "\<forall>d'. flat d' = flat d \<longrightarrow>
            torch_mean d' = torch_mean d \<and> torch_std d' = torch_std d
          \<and> flat (normalize_norm_dist d') = flat (normalize_norm_dist d)"
  proof (intro allI impI)
    fix d' :: tensor assume f: "flat d' = flat d"
    from moments_of_flat[OF f] have m: "torch_mean d' = torch_mean d" "torch_std d' = torch_std d"
      by simp_all
    have "flat (normalize_norm_dist d') = flat (normalize_norm_dist d)"
      unfolding normalize_flat m f by (rule refl)
    with m show "torch_mean d' = torch_mean d \<and> torch_std d' = torch_std d
          \<and> flat (normalize_norm_dist d') = flat (normalize_norm_dist d)" by blast
  qed
  from g sd sn el gl show ?thesis by blast
qed

text \<open>
  The example: the difference is \<open>3, -1\<close> in the first channel and \<open>-1, -1\<close> in the
  second; the mean over the four elements is 0 and the standard deviation is 2 (every
  value here is a 32-bit float and every operation on them is exact). The second channel
  is constant: normalized by itself it would be not-a-number, normalized over the whole
  tensor it is \<open>-1/2\<close>.
\<close>

lemma example_difference:
  "tsub (fst (predict example_dip_env example_dip_trainer)) (dt_train_img example_dip_trainer)
     = [[[[Fin 3, Fin (- 1)]], [[Fin (- 1), Fin (- 1)]]]]"
  by (simp add: example_dip_env_def example_dip_trainer_def DIPTrainer_init_def predict_def
        Let_def tsub_def tzip_def fsub_def)

lemma example_difference_flat:
  "flat [[[[Fin 3, Fin (- 1)]], [[Fin (- 1), Fin (- 1)]]]] = map Fin [3, - 1, - 1, - 1]"
  "flat regrouped_difference = flat [[[[Fin 3, Fin (- 1)]], [[Fin (- 1), Fin (- 1)]]]]"
  by (simp_all add: flat_def flat_image_def regrouped_difference_def)

lemma example_difference_moments:
  "torch_mean [[[[Fin 3, Fin (- 1)]], [[Fin (- 1), Fin (- 1)]]]] = Fin 0"
  "torch_std [[[[Fin 3, Fin (- 1)]], [[Fin (- 1), Fin (- 1)]]]] = Fin 2"
proof -
  have ne: "[3, - 1, - 1, - 1 :: real] \<noteq> []" by simp
  have l: "2 \<le> length [3, - 1, - 1, - 1 :: real]" by simp
  show "torch_mean [[[[Fin 3, Fin (- 1)]], [[Fin (- 1), Fin (- 1)]]]] = Fin 0"
    using torch_mean_Fin_nonempty[OF example_difference_flat(1) ne] by simp
  show "torch_std [[[[Fin 3, Fin (- 1)]], [[Fin (- 1), Fin (- 1)]]]] = Fin 2"
    using torch_std_Fin[OF example_difference_flat(1) l] by simp
qed

lemma example_each_channel:
  "normalize_each_channel [[[[Fin 3, Fin (- 1)]], [[Fin (- 1), Fin (- 1)]]]] ! 0 ! 1 = [[NaN, NaN]]"
  by (simp add: normalize_each_channel_def normalize_norm_dist_def tmap_def torch_mean_def
        torch_std_def fmean_def fsum_def flat_def flat_image_def fsub_def inf_of_sign_def Let_def)

theorem generate_noise_global_witness:
  "shape (fst (predict example_dip_env example_dip_trainer))
     = shape (dt_train_img example_dip_trainer)
   \<and> fst (generate_noise example_dip_env example_dip_trainer)
       = [[[[Fin (3 / 2), Fin (- 1 / 2)]], [[Fin (- 1 / 2), Fin (- 1 / 2)]]]]
   \<and> normalize_each_channel [[[[Fin 3, Fin (- 1)]], [[Fin (- 1), Fin (- 1)]]]] ! 0 ! 1
       = [[NaN, NaN]]
   \<and> flat (normalize_norm_dist regrouped_difference)
       = [Fin (3 / 2), Fin (- 1 / 2), Fin (- 1 / 2), Fin (- 1 / 2)]"
proof -
  let ?d = "[[[[Fin 3, Fin (- 1)]], [[Fin (- 1), Fin (- 1)]]]]"
  have sh: "shape (fst (predict example_dip_env example_dip_trainer))
              = shape (dt_train_img example_dip_trainer)"
    by (simp add: shape_def example_dip_env_def example_dip_trainer_def DIPTrainer_init_def
          predict_def Let_def)
  note t = generate_noise_global [OF refl sh example_difference[symmetric]]
  have n: "normalize_norm_dist ?d = [[[[Fin (3 / 2), Fin (- 1 / 2)]], [[Fin (- 1 / 2), Fin (- 1 / 2)]]]]"
    unfolding normalize_norm_dist_def example_difference_moments
    by (simp add: tmap_def fsub_def)
  from t have g: "fst (generate_noise example_dip_env example_dip_trainer) = normalize_norm_dist ?d"
    by blast
  from t example_difference_flat(2)
  have "flat (normalize_norm_dist regrouped_difference) = flat (normalize_norm_dist ?d)"
    by blast
  then have r: "flat (normalize_norm_dist regrouped_difference)
       = [Fin (3 / 2), Fin (- 1 / 2), Fin (- 1 / 2), Fin (- 1 / 2)]"
    unfolding n by (simp add: flat_def flat_image_def)
  from sh g[unfolded n] example_each_channel r show ?thesis by blast
qed

end
